theory Spec2Isabelle
  imports Complex_Main
begin

section \<open>Omniscience Oracle: odds parser, series buffers, indicators, recommendations\<close>

text \<open>
  A shallow embedding of the Python sources \<^verbatim>\<open>parser/odds_parser.py\<close>,
  \<^verbatim>\<open>config/settings.py\<close>, \<^verbatim>\<open>parser/ta/ta_engine.py\<close>,
  \<^verbatim>\<open>engine/recommendations.py\<close> and the buffer code of \<^verbatim>\<open>app.py\<close>.

  Conventions of the embedding:
  \<^item> Python \<^verbatim>\<open>int\<close> is \<^typ>\<open>int\<close>; Python \<^verbatim>\<open>float\<close> is idealised as \<^typ>\<open>real\<close>
    (exact arithmetic, no rounding). An integer too large for a float raises
    \<^verbatim>\<open>OverflowError\<close> when it is converted, as in the source. In the indicators, a call
    whose float result would be NaN returns an explicit error value; in the
    recommendation engine, whose inputs can hold NaN, numbers are of the type \<open>pynum\<close>,
    a real or NaN.
  \<^item> \<^verbatim>\<open>Optional[T]\<close> is \<^typ>\<open>'a option\<close>, with \<^term>\<open>None\<close> for Python's \<^verbatim>\<open>None\<close>.
  \<^item> Python \<^verbatim>\<open>str\<close> is \<^typ>\<open>string\<close>; a \<^typ>\<open>char\<close> stands for the code point of the
    same number, so texts are restricted to code points below 256.
  \<^item> A raised exception is the \<^term>\<open>Inl\<close> branch of a sum type.
  \<^item> \<^verbatim>\<open>datetime.utcnow().isoformat()\<close> is a parameter \<open>now\<close> of the functions that read the clock.
  \<^item> A leading underscore of a Python name is dropped (\<^verbatim>\<open>_normalize_two_way\<close> is
    \<open>normalize_two_way\<close>).
\<close>

datatype py_error =
    AttributeError
  | IndexError
  | TypeError
  | ValueError
  | OverflowError
  | NotANumber

text \<open>
  \<^term>\<open>NotANumber\<close> is not an exception: it marks a call whose float result is NaN (the
  mean or the standard deviation of an empty array), which has no counterpart in
  \<^typ>\<open>real\<close>.
\<close>

subsection \<open>Odds conversions (\<^verbatim>\<open>OmniscienceDataParser\<close>, static helpers)\<close>

text \<open>
  The conversion of an integer to a float, which \<^verbatim>\<open>odds + 100.0\<close> and \<^verbatim>\<open>float(-odds)\<close>
  perform. It rounds to the nearest float, ties to even, and raises \<^verbatim>\<open>OverflowError\<close> when
  the rounded value is beyond the largest float \<open>2^1024 - 2^971\<close>: that is from
  \<open>2^1024 - 2^970\<close> on.
\<close>

definition float_limit :: int where
  "float_limit = 2 ^ 1024 - 2 ^ 970"

definition float_of_int :: "int \<Rightarrow> py_error + real" where
  "float_of_int k = (if \<bar>k\<bar> \<ge> float_limit then Inl OverflowError else Inr (real_of_int k))"

definition american_to_prob_raw :: "int option \<Rightarrow> py_error + real option" where
  "american_to_prob_raw odds =
     (case odds of
        None \<Rightarrow> Inr None
      | Some k \<Rightarrow>
          if k > 0 then
            (case float_of_int k of
               Inl e \<Rightarrow> Inl e
             | Inr x \<Rightarrow> Inr (Some (100 / (x + 100))))
          else
            (case float_of_int (- k) of
               Inl e \<Rightarrow> Inl e
             | Inr x \<Rightarrow> Inr (Some (x / (x + 100)))))"

text \<open>
  \<^verbatim>\<open>a_raw\<close> and \<^verbatim>\<open>b_raw\<close> are the raw probability of a present side and \<^verbatim>\<open>0.0\<close> for an
  absent one; \<^verbatim>\<open>(a_raw or 0.0)\<close> is then the same number.
\<close>

definition raw_or_zero :: "int option \<Rightarrow> py_error + real" where
  "raw_or_zero odds =
     (case american_to_prob_raw odds of
        Inl e \<Rightarrow> Inl e
      | Inr None \<Rightarrow> Inr 0
      | Inr (Some p) \<Rightarrow> Inr p)"

definition normalize_two_way ::
  "int option \<Rightarrow> int option \<Rightarrow> py_error + (real option \<times> real option)" where
  "normalize_two_way a_odds b_odds =
     (if a_odds = None \<and> b_odds = None then Inr (None, None)
      else
        case raw_or_zero a_odds of
          Inl e \<Rightarrow> Inl e
        | Inr a_raw \<Rightarrow>
            (case raw_or_zero b_odds of
               Inl e \<Rightarrow> Inl e
             | Inr b_raw \<Rightarrow>
                 let total = a_raw + b_raw
                 in if total = 0
                    then (if b_odds = None then Inr (Some a_raw, None)
                          else Inr (None, Some b_raw))
                    else Inr (Some (a_raw / total), Some (b_raw / total))))"

definition calc_opposite_vig :: "int option \<Rightarrow> int option" where
  "calc_opposite_vig vig = (case vig of None \<Rightarrow> None | Some v \<Rightarrow> Some (- 220 - v))"

subsection \<open>Strings: the \<^verbatim>\<open>str\<close> methods and regular expressions the parser uses\<close>

text \<open>\<^verbatim>\<open>str.isspace\<close> on one character (code points below 256).\<close>

definition is_space :: "char \<Rightarrow> bool" where
  "is_space c \<longleftrightarrow>
     c \<in> set [CHR 0x09, CHR 0x0A, CHR 0x0B, CHR 0x0C, CHR 0x0D,
               CHR 0x1C, CHR 0x1D, CHR 0x1E, CHR 0x1F, CHR 0x20, CHR 0x85, CHR 0xA0]"

text \<open>The line boundaries of \<^verbatim>\<open>str.splitlines\<close> (code points below 256).\<close>

definition is_linebreak :: "char \<Rightarrow> bool" where
  "is_linebreak c \<longleftrightarrow>
     c \<in> set [CHR 0x0A, CHR 0x0B, CHR 0x0C, CHR 0x0D, CHR 0x1C, CHR 0x1D, CHR 0x1E, CHR 0x85]"

text \<open>The class \<^verbatim>\<open>\d\<close> of \<^verbatim>\<open>re\<close> (below code point 256 only the ten ASCII digits are decimal digits).\<close>

definition is_digit :: "char \<Rightarrow> bool" where
  "is_digit c \<longleftrightarrow> c \<in> set ''0123456789''"

definition digit_value :: "char \<Rightarrow> nat" where
  "digit_value c = of_char c - 48"

definition strip :: "string \<Rightarrow> string" where
  "strip s = rev (dropWhile is_space (rev (dropWhile is_space s)))"

text \<open>
  \<^verbatim>\<open>str.lower\<close>: below code point 256 the upper-case letters are \<^verbatim>\<open>A\<close>..\<^verbatim>\<open>Z\<close> and
  \<^verbatim>\<open>0xC0\<close>..\<^verbatim>\<open>0xDE\<close> without \<^verbatim>\<open>0xD7\<close>; each lower-case partner is 32 higher.
\<close>

definition lower_char :: "char \<Rightarrow> char" where
  "lower_char c =
     (let n = (of_char c :: nat)
      in if (65 \<le> n \<and> n \<le> 90) \<or> (192 \<le> n \<and> n \<le> 222 \<and> n \<noteq> 215)
         then char_of (n + 32) else c)"

definition lower :: "string \<Rightarrow> string" where
  "lower s = map lower_char s"

text \<open>\<^verbatim>\<open>s.replace('+', '')\<close>.\<close>

definition remove_plus :: "string \<Rightarrow> string" where
  "remove_plus s = filter (\<lambda>c. c \<noteq> CHR ''+'') s"

text \<open>\<^verbatim>\<open>str.split()\<close> without arguments: the maximal runs of non-whitespace characters.\<close>

fun split_ws :: "string \<Rightarrow> string \<Rightarrow> string list" where
  "split_ws [] cur = (if cur = [] then [] else [cur])"
| "split_ws (c # cs) cur =
     (if is_space c then (if cur = [] then split_ws cs [] else cur # split_ws cs [])
      else split_ws cs (cur @ [c]))"

definition split :: "string \<Rightarrow> string list" where
  "split s = split_ws s []"

text \<open>
  \<^verbatim>\<open>str.splitlines()\<close>: a line ends at a line boundary, \<^verbatim>\<open>\r\n\<close> is one boundary, and a
  text that ends with a boundary has no empty last line.
\<close>

fun splitlines_from :: "string \<Rightarrow> string \<Rightarrow> string list" where
  "splitlines_from [] cur = (if cur = [] then [] else [cur])"
| "splitlines_from (c # cs) cur =
     (if is_linebreak c then
        (case cs of
           d # ds \<Rightarrow>
             if c = CHR 0x0D \<and> d = CHR 0x0A then cur # splitlines_from ds []
             else cur # splitlines_from cs []
         | [] \<Rightarrow> cur # splitlines_from cs [])
      else splitlines_from cs (cur @ [c]))"

definition splitlines :: "string \<Rightarrow> string list" where
  "splitlines s = splitlines_from s []"

text \<open>
  A regular expression matched at the start of a string returns the matched text and the
  rest of the string. Every quantifier below is greedy and none needs backtracking beyond
  the optional sign: a sign is part of a match only when a digit follows it.
\<close>

text \<open>\<^verbatim>\<open>\d+\<close> at the start, after an optional sign from the set \<open>signs\<close>.\<close>

definition match_signed_digits :: "string \<Rightarrow> string \<Rightarrow> (string \<times> string) option" where
  "match_signed_digits signs s =
     (case s of
        [] \<Rightarrow> None
      | c # rest \<Rightarrow>
          if c \<in> set signs then
            (case rest of
               [] \<Rightarrow> None
             | d # _ \<Rightarrow>
                 if is_digit d then Some (c # takeWhile is_digit rest, dropWhile is_digit rest)
                 else None)
          else if is_digit c then Some (takeWhile is_digit s, dropWhile is_digit s)
          else None)"

text \<open>\<^verbatim>\<open>re.search(r"-?\d+", s)\<close>: the leftmost match, as \<^verbatim>\<open>m.group(0)\<close>.\<close>

fun search_int :: "string \<Rightarrow> string option" where
  "search_int [] = None"
| "search_int (c # cs) =
     (case match_signed_digits ''-'' (c # cs) of
        Some (m, _) \<Rightarrow> Some m
      | None \<Rightarrow> search_int cs)"

text \<open>\<^verbatim>\<open>re.search(r"-?\d+\.?\d*", s)\<close>: after the digits, an optional point and more digits.\<close>

fun search_point :: "string \<Rightarrow> string option" where
  "search_point [] = None"
| "search_point (c # cs) =
     (case match_signed_digits ''-'' (c # cs) of
        Some (m, rest) \<Rightarrow>
          (case rest of
             d # ds \<Rightarrow> if d = CHR ''.'' then Some (m @ d # takeWhile is_digit ds) else Some m
           | [] \<Rightarrow> Some m)
      | None \<Rightarrow> search_point cs)"

text \<open>\<^verbatim>\<open>re.findall(r"[+-]?\d+", s)\<close>: the non-overlapping matches from left to right.\<close>

function findall_signed :: "string \<Rightarrow> string list" where
  "findall_signed [] = []"
| "findall_signed (c # cs) =
     (case match_signed_digits ''+-'' (c # cs) of
        Some (m, rest) \<Rightarrow> m # findall_signed rest
      | None \<Rightarrow> findall_signed cs)"
  by pat_completeness auto
termination
  by (relation "measure length")
     (auto simp: match_signed_digits_def less_Suc_eq_le
           intro: le_SucI length_dropWhile_le
           split: list.splits if_splits)

text \<open>\<^verbatim>\<open>int(m)\<close> for a text \<open>m\<close> matched by \<^verbatim>\<open>-?\d+\<close>, and \<^verbatim>\<open>float(m)\<close> for one matched by
  \<^verbatim>\<open>-?\d+\.?\d*\<close> (the exact decimal value). Interpreters that limit the digits of
  \<^verbatim>\<open>int(m)\<close> raise \<^verbatim>\<open>ValueError\<close> beyond 4300 digits, which is not modelled; in the two
  grammars every such integer goes on to \<open>normalize_two_way\<close>, where it raises as well, and
  either exception makes the grammar return \<^verbatim>\<open>None\<close>.\<close>

definition digits_value :: "string \<Rightarrow> nat" where
  "digits_value ds = foldl (\<lambda>acc c. 10 * acc + digit_value c) 0 ds"

definition int_of_match :: "string \<Rightarrow> int" where
  "int_of_match m =
     (case m of
        c # ds \<Rightarrow> if c = CHR ''-'' then - int (digits_value ds) else int (digits_value m)
      | [] \<Rightarrow> 0)"

definition unsigned_float :: "string \<Rightarrow> real" where
  "unsigned_float m =
     (let ip = takeWhile is_digit m;
          fp = (case dropWhile is_digit m of [] \<Rightarrow> [] | _ # ds \<Rightarrow> ds)
      in real (digits_value ip) + real (digits_value fp) / 10 ^ length fp)"

definition float_of_match :: "string \<Rightarrow> real" where
  "float_of_match m =
     (case m of
        c # ds \<Rightarrow> if c = CHR ''-'' then - unsigned_float ds else unsigned_float m
      | [] \<Rightarrow> 0)"

text \<open>\<^verbatim>\<open>str(n)\<close> for an integer, used by the f-string of the 4-line \<^verbatim>\<open>game_id\<close>.\<close>

function str_of_nat :: "nat \<Rightarrow> string" where
  "str_of_nat n =
     (if n < 10 then [''0123456789'' ! n]
      else str_of_nat (n div 10) @ [''0123456789'' ! (n mod 10)])"
  by pat_completeness auto
termination
  by (relation "measure id") auto

declare str_of_nat.simps [simp del]

definition str_of_int :: "int \<Rightarrow> string" where
  "str_of_int k = (if k < 0 then CHR ''-'' # str_of_nat (nat (- k)) else str_of_nat (nat k))"

definition str_of_int_option :: "int option \<Rightarrow> string" where
  "str_of_int_option v = (case v of None \<Rightarrow> ''None'' | Some k \<Rightarrow> str_of_int k)"

subsection \<open>Token helpers of the parser\<close>

definition sanitize_int_token :: "string option \<Rightarrow> int option" where
  "sanitize_int_token tok =
     (case tok of
        None \<Rightarrow> None
      | Some t \<Rightarrow>
          let s = strip t
          in if s = [] then None
             else if lower s = ''even'' then Some 100
             else map_option int_of_match (search_int (remove_plus s)))"

definition extract_point_value :: "string option \<Rightarrow> real option" where
  "extract_point_value token =
     (case token of
        None \<Rightarrow> None
      | Some t \<Rightarrow> map_option float_of_match (search_point t))"


subsection \<open>Configuration (\<^verbatim>\<open>config/settings.py\<close>)\<close>

text \<open>
  Python values that a dictionary row or a configuration attribute can hold.
\<close>

datatype pyval =
    VNone
  | VBool bool
  | VInt int
  | VFloat real
  | VStr string
  | VList "pyval list"

fun truthy :: "pyval \<Rightarrow> bool" where
  "truthy VNone = False"
| "truthy (VBool b) = b"
| "truthy (VInt k) = (k \<noteq> 0)"
| "truthy (VFloat x) = (x \<noteq> 0)"
| "truthy (VStr s) = (s \<noteq> [])"
| "truthy (VList vs) = (vs \<noteq> [])"

definition opt_int :: "int option \<Rightarrow> pyval" where
  "opt_int v = (case v of None \<Rightarrow> VNone | Some k \<Rightarrow> VInt k)"

definition opt_float :: "real option \<Rightarrow> pyval" where
  "opt_float v = (case v of None \<Rightarrow> VNone | Some x \<Rightarrow> VFloat x)"

definition opt_str :: "string option \<Rightarrow> pyval" where
  "opt_str v = (case v of None \<Rightarrow> VNone | Some s \<Rightarrow> VStr s)"

text \<open>The class \<^verbatim>\<open>Config\<close>: one field for each attribute that the class declares.\<close>

record Config =
  ignore_header_rows :: bool
  parse_5_line_blocks :: bool
  parse_4_line_blocks :: bool
  strong_confidence_threshold :: real
  min_confidence_for_action :: real
  lmf_horizons :: "int list"
  default_history_len :: int
  rsi_period :: int
  zscore_lookback :: int
  bollinger_lookback :: int
  atr_lookback :: int
  kelly_fraction_cap :: real

definition config :: Config where
  "config = \<lparr>
     ignore_header_rows = True,
     parse_5_line_blocks = True,
     parse_4_line_blocks = True,
     strong_confidence_threshold = 0.80,
     min_confidence_for_action = 0.55,
     lmf_horizons = [30, 60, 90],
     default_history_len = 300,
     rsi_period = 14,
     zscore_lookback = 20,
     bollinger_lookback = 20,
     atr_lookback = 14,
     kelly_fraction_cap = 0.20 \<rparr>"

text \<open>
  Attribute access \<^verbatim>\<open>cfg.name\<close> on an instance of \<^verbatim>\<open>Config\<close>: the value of a declared
  attribute, and \<^verbatim>\<open>AttributeError\<close> for every other name. Where the source reads a
  declared attribute the model uses the record field directly; only a read of a name that
  the class does not declare goes through \<open>Config_getattr\<close>.
\<close>

definition Config_getattr :: "Config \<Rightarrow> string \<Rightarrow> py_error + pyval" where
  "Config_getattr c name =
     (if name = ''ignore_header_rows'' then Inr (VBool (ignore_header_rows c))
      else if name = ''parse_5_line_blocks'' then Inr (VBool (parse_5_line_blocks c))
      else if name = ''parse_4_line_blocks'' then Inr (VBool (parse_4_line_blocks c))
      else if name = ''strong_confidence_threshold'' then Inr (VFloat (strong_confidence_threshold c))
      else if name = ''min_confidence_for_action'' then Inr (VFloat (min_confidence_for_action c))
      else if name = ''lmf_horizons'' then Inr (VList (map VInt (lmf_horizons c)))
      else if name = ''default_history_len'' then Inr (VInt (default_history_len c))
      else if name = ''rsi_period'' then Inr (VInt (rsi_period c))
      else if name = ''zscore_lookback'' then Inr (VInt (zscore_lookback c))
      else if name = ''bollinger_lookback'' then Inr (VInt (bollinger_lookback c))
      else if name = ''atr_lookback'' then Inr (VInt (atr_lookback c))
      else if name = ''kelly_fraction_cap'' then Inr (VFloat (kelly_fraction_cap c))
      else Inl AttributeError)"

subsection \<open>Block grammars (\<^verbatim>\<open>_parse_5line\<close>, \<^verbatim>\<open>_parse_4line\<close>)\<close>

text \<open>
  A parsed record is the Python dictionary the grammar builds: its keys in insertion
  order, each with its value. \<open>row_get\<close> is \<^verbatim>\<open>dict.get\<close>.
\<close>

type_synonym row = "(string \<times> pyval) list"

definition row_get :: "row \<Rightarrow> string \<Rightarrow> pyval" where
  "row_get r k = (case map_of r k of None \<Rightarrow> VNone | Some v \<Rightarrow> v)"

text \<open>
  Line 3 of a 5-line block: a token of at least two characters that starts with
  \<^verbatim>\<open>o\<close> or \<^verbatim>\<open>u\<close> (in either case) names the side, and the rest holds the points.
\<close>

definition parse_total_token :: "string \<Rightarrow> string option \<times> real option" where
  "parse_total_token total_token =
     (case total_token of
        c # rest \<Rightarrow>
          if rest \<noteq> [] \<and> (lower [c] = ''o'' \<or> lower [c] = ''u'')
          then (Some (if lower [c] = ''o'' then ''over'' else ''under''),
                extract_point_value (Some rest))
          else (None, extract_point_value (Some total_token))
      | [] \<Rightarrow> (None, extract_point_value (Some total_token)))"

text \<open>
  The body of \<^verbatim>\<open>_parse_5line\<close> runs inside \<^verbatim>\<open>try ... except Exception: return None\<close>, and
  nothing is written before the \<^verbatim>\<open>return\<close>. Two kinds of statement can raise: an index
  into a block of fewer than five lines, and a call of \<^verbatim>\<open>_normalize_two_way\<close> on an integer
  beyond the float range. Either way the result is \<^verbatim>\<open>None\<close>, so the model computes the
  three normalized pairs after the tokens and returns \<^term>\<open>None\<close> when one of them raises.
\<close>

definition parse_5line :: "string \<Rightarrow> string list \<Rightarrow> row option" where
  "parse_5line now block =
     (case block of
        l1 # l2 # l3 # l4 # l5 # _ \<Rightarrow>
          let t1 = split l1
          in if length t1 < 4 then None
             else
               let date_token = t1 ! 0;
                   time_token = t1 ! 1;
                   favorite_team = t1 ! 2;
                   spread_points = extract_point_value (Some (t1 ! 3));
                   spread_vig_raw = strip l2;
                   spread_vig = sanitize_int_token (Some spread_vig_raw);
                   spread_vig_opp = calc_opposite_vig spread_vig;
                   total_token = strip l3;
                   (total_side, total_points) = parse_total_token total_token;
                   total_vig = sanitize_int_token (Some l4);
                   total_vig_opp = calc_opposite_vig total_vig;
                   ml_matches = findall_signed l5;
                   away_ml = (case ml_matches of m0 # _ \<Rightarrow> sanitize_int_token (Some m0)
                              | [] \<Rightarrow> None);
                   home_ml = (case ml_matches of _ # m1 # _ \<Rightarrow> sanitize_int_token (Some m1)
                              | _ \<Rightarrow> None)
               in case (normalize_two_way spread_vig spread_vig_opp,
                        normalize_two_way total_vig total_vig_opp,
                        normalize_two_way away_ml home_ml) of
                    (Inr (fav_ip_raw, dog_ip_raw), Inr (over_ip_raw, under_ip_raw),
                     Inr (away_ml_ip_raw, home_ml_ip_raw)) \<Rightarrow>
                      Some
                        [(''game_id'',
                            VStr (date_token @ ''|'' @ time_token @ ''|'' @ favorite_team)),
                         (''date'', VStr date_token),
                         (''time'', VStr time_token),
                         (''favorite_team'', VStr favorite_team),
                         (''spread_points'', opt_float spread_points),
                         (''favorite_ip_raw'', opt_float fav_ip_raw),
                         (''dog_ip_raw'', opt_float dog_ip_raw),
                         (''spread_vig'', opt_int spread_vig),
                         (''spread_vig_opp'', opt_int spread_vig_opp),
                         (''total_points'', opt_float total_points),
                         (''total_side'', opt_str total_side),
                         (''over_ip_raw'', opt_float over_ip_raw),
                         (''under_ip_raw'', opt_float under_ip_raw),
                         (''total_vig'', opt_int total_vig),
                         (''total_vig_opp'', opt_int total_vig_opp),
                         (''away_ml'', opt_int away_ml),
                         (''home_ml'', opt_int home_ml),
                         (''away_ml_ip_raw'', opt_float away_ml_ip_raw),
                         (''home_ml_ip_raw'', opt_float home_ml_ip_raw),
                         (''parsed_at'', VStr now)]
                  | _ \<Rightarrow> None
      | _ \<Rightarrow> None)"

text \<open>
  \<^verbatim>\<open>_parse_4line\<close>, under the same \<^verbatim>\<open>try\<close>. The normalized runline pair goes into two local
  variables that the source never reads, but the call can raise like the other two.
\<close>

definition parse_4line :: "string \<Rightarrow> string list \<Rightarrow> row option" where
  "parse_4line now block =
     (case block of
        l1 # l2 # l3 # l4 # _ \<Rightarrow>
          let t1 = split l1
          in if length t1 < 5 then None
             else
               let date_token = t1 ! 0;
                   time_token = t1 ! 1;
                   away_ml = sanitize_int_token (Some (t1 ! 2));
                   home_ml = sanitize_int_token (Some (t1 ! 3));
                   total_token = t1 ! 4;
                   total_points = extract_point_value (Some total_token);
                   total_vig = sanitize_int_token (Some l2);
                   total_vig_opp = calc_opposite_vig total_vig;
                   rtokens = split l3;
                   runline_points = (case rtokens of _ # r1 # _ \<Rightarrow> extract_point_value (Some r1)
                                     | _ \<Rightarrow> None);
                   runline_vig = sanitize_int_token (Some l4);
                   runline_vig_opp = calc_opposite_vig runline_vig
               in case (normalize_two_way away_ml home_ml,
                        normalize_two_way total_vig total_vig_opp,
                        normalize_two_way runline_vig runline_vig_opp) of
                    (Inr (away_ml_ip_raw, home_ml_ip_raw), Inr (over_ip_raw, under_ip_raw),
                     Inr (runline_vig_ip, runline_vig_opp_ip)) \<Rightarrow>
                      Some
                        [(''game_id'', VStr (date_token @ ''|'' @ time_token @ ''|''
                                              @ str_of_int_option away_ml @ ''|''
                                              @ str_of_int_option home_ml)),
                         (''date'', VStr date_token),
                         (''time'', VStr time_token),
                         (''away_ml'', opt_int away_ml),
                         (''home_ml'', opt_int home_ml),
                         (''away_ml_ip_raw'', opt_float away_ml_ip_raw),
                         (''home_ml_ip_raw'', opt_float home_ml_ip_raw),
                         (''total_points'', opt_float total_points),
                         (''total_vig'', opt_int total_vig),
                         (''total_vig_opp'', opt_int total_vig_opp),
                         (''over_ip_raw'', opt_float over_ip_raw),
                         (''under_ip_raw'', opt_float under_ip_raw),
                         (''runline_points'', opt_float runline_points),
                         (''runline_vig'', opt_int runline_vig),
                         (''runline_vig_opp'', opt_int runline_vig_opp),
                         (''parsed_at'', VStr now)]
                  | _ \<Rightarrow> None
      | _ \<Rightarrow> None)"

subsection \<open>Feed parsing (\<^verbatim>\<open>parse_feed\<close>)\<close>

text \<open>The parser object: its configuration and the two lists it appends to.\<close>

record parser =
  cfg :: Config
  parsed_data :: "row list"
  splits_data :: "row list"

text \<open>
  The block size the grouping loop waits for, given \<^verbatim>\<open>block_type\<close> and the current
  length of \<^verbatim>\<open>cur\<close>; \<^term>\<open>None\<close> is Python's \<^verbatim>\<open>None\<close>.
\<close>

definition expect_size :: "Config \<Rightarrow> string \<Rightarrow> nat \<Rightarrow> nat option" where
  "expect_size c block_type n =
     (if block_type = ''5line'' then Some 5
      else if block_type = ''4line'' then Some 4
      else if n \<ge> 5 \<and> parse_5_line_blocks c then Some 5
      else if n \<ge> 4 \<and> parse_4_line_blocks c then Some 4
      else None)"

text \<open>
  The \<^verbatim>\<open>while\<close> loop over the lines from \<^verbatim>\<open>start_idx\<close> on: the arguments are the lines
  still to read, \<^verbatim>\<open>cur\<close> and \<^verbatim>\<open>blocks\<close>; the result is \<^verbatim>\<open>cur\<close> and \<^verbatim>\<open>blocks\<close> at the
  end of the loop.
\<close>

fun group_lines ::
  "Config \<Rightarrow> string \<Rightarrow> string list \<Rightarrow> string list \<Rightarrow> string list list
     \<Rightarrow> string list \<times> string list list" where
  "group_lines c block_type [] cur blocks = (cur, blocks)"
| "group_lines c block_type (line # rest) cur blocks =
     (let cur' = cur @ [line]
      in case expect_size c block_type (length cur') of
           Some expect \<Rightarrow>
             if expect \<noteq> 0 \<and> length cur' = expect
             then group_lines c block_type rest [] (blocks @ [cur'])
             else group_lines c block_type rest cur' blocks
         | None \<Rightarrow> group_lines c block_type rest cur' blocks)"

text \<open>After the loop a remainder of four or five lines becomes a last block.\<close>

definition make_blocks :: "Config \<Rightarrow> string \<Rightarrow> string list \<Rightarrow> string list list" where
  "make_blocks c block_type lines =
     (let (cur, blocks) = group_lines c block_type lines [] []
      in if cur \<noteq> [] \<and> (length cur = 4 \<or> length cur = 5) then blocks @ [cur] else blocks)"

text \<open>
  The length at which the loop flushes a block, as a function of the block type and the
  configuration: in mode \<^verbatim>\<open>auto\<close> with the 4-line grammar enabled \<^verbatim>\<open>cur\<close> is flushed at four
  lines and never reaches five. With both grammars disabled the loop never flushes.
\<close>

definition block_size :: "Config \<Rightarrow> string \<Rightarrow> nat option" where
  "block_size c block_type =
     (if block_type = ''5line'' then Some 5
      else if block_type = ''4line'' then Some 4
      else if parse_4_line_blocks c then Some 4
      else if parse_5_line_blocks c then Some 5
      else None)"

text \<open>The rows that a list of 5-line blocks maps to, block after block.\<close>

definition rows_of_blocks :: "string \<Rightarrow> string list list \<Rightarrow> row list" where
  "rows_of_blocks now bs =
     concat (map (\<lambda>b. case parse_5line now b of Some r \<Rightarrow> [r] | None \<Rightarrow> []) bs)"

text \<open>The lines that the grouping loop reads: all lines, or all but a header line.\<close>

definition body_lines :: "Config \<Rightarrow> string list \<Rightarrow> string list" where
  "body_lines c lines = drop (if ignore_header_rows c \<and> length lines > 0 then 1 else 0) lines"

text \<open>
  The \<^verbatim>\<open>if\<close>/\<^verbatim>\<open>elif\<close>/\<^verbatim>\<open>else\<close> that maps one block. The \<^verbatim>\<open>elif\<close> reads
  \<^verbatim>\<open>self.cfg.parse_4line_blocks\<close>, evaluated only when the block has four lines
  (\<^verbatim>\<open>and\<close> short-circuits).
\<close>

definition map_block :: "Config \<Rightarrow> string \<Rightarrow> string list \<Rightarrow> py_error + row option" where
  "map_block c now b =
     (if length b = 5 \<and> parse_5_line_blocks c then Inr (parse_5line now b)
      else if length b = 4 then
        (case Config_getattr c ''parse_4line_blocks'' of
           Inl e \<Rightarrow> Inl e
         | Inr v \<Rightarrow> if truthy v then Inr (parse_4line now b) else Inr None)
      else Inr None)"

text \<open>
  The \<^verbatim>\<open>for\<close> loop over the blocks, with the list \<^verbatim>\<open>parsed\<close> built so far. The result
  is the exception that ended the loop, if any, and \<^verbatim>\<open>parsed\<close> at that moment: the same
  records have been appended to \<^verbatim>\<open>self.parsed_data\<close>. \<^verbatim>\<open>if p:\<close> holds for a dictionary
  with at least one key.
\<close>

fun map_blocks ::
  "Config \<Rightarrow> string \<Rightarrow> string list list \<Rightarrow> row list \<Rightarrow> py_error option \<times> row list" where
  "map_blocks c now [] parsed = (None, parsed)"
| "map_blocks c now (b # bs) parsed =
     (case map_block c now b of
        Inl e \<Rightarrow> (Some e, parsed)
      | Inr p \<Rightarrow>
          (case p of
             Some r \<Rightarrow> if r \<noteq> [] then map_blocks c now bs (parsed @ [r])
                       else map_blocks c now bs parsed
           | None \<Rightarrow> map_blocks c now bs parsed))"

text \<open>
  \<^verbatim>\<open>[ln.strip() for ln in text_feed.splitlines() if ln.strip() != '']\<close>.
\<close>

definition feed_lines :: "string \<Rightarrow> string list" where
  "feed_lines text_feed = filter (\<lambda>line. line \<noteq> []) (map strip (splitlines text_feed))"

text \<open>
  \<^verbatim>\<open>parse_feed\<close>: the result is the list of rows of the returned data frame, or the
  exception that the call raises, together with the parser object after the call.
\<close>

definition parse_feed ::
  "parser \<Rightarrow> string \<Rightarrow> string \<Rightarrow> string \<Rightarrow> (py_error + row list) \<times> parser" where
  "parse_feed self now text_feed block_type =
     (let lines = feed_lines text_feed
      in if lines = [] then (Inr [], self)
         else
           let start_idx = (if ignore_header_rows (cfg self) \<and> length lines > 0 then 1 else 0);
               blocks = make_blocks (cfg self) block_type (drop start_idx lines);
               (raised, parsed) = map_blocks (cfg self) now blocks [];
               self' = self\<lparr>parsed_data := parsed_data self @ parsed\<rparr>
           in case raised of
                Some e \<Rightarrow> (Inl e, self')
              | None \<Rightarrow> (Inr parsed, self'))"

text \<open>\<^verbatim>\<open>OmniscienceDataParser()\<close>: a new parser with the module's \<^verbatim>\<open>config\<close>.\<close>

definition new_parser :: parser where
  "new_parser = \<lparr> cfg = config, parsed_data = [], splits_data = [] \<rparr>"

text \<open>A feed text from its lines: each line followed by a line feed.\<close>

definition feed_text :: "string list \<Rightarrow> string" where
  "feed_text lines = concat (map (\<lambda>line. line @ [CHR 0x0A]) lines)"


subsection \<open>Series buffers (\<^verbatim>\<open>push\<close> in \<^verbatim>\<open>app.py\<close>)\<close>

text \<open>The slice \<^verbatim>\<open>xs[start:]\<close> for any integer \<^verbatim>\<open>start\<close>, and the index \<^verbatim>\<open>xs[i]\<close>.\<close>

definition slice_from :: "int \<Rightarrow> 'a list \<Rightarrow> 'a list" where
  "slice_from start xs =
     (let n = int (length xs);
          k = (if start < 0 then max (n + start) 0 else min start n)
      in drop (nat k) xs)"

definition py_index :: "'a list \<Rightarrow> int \<Rightarrow> py_error + 'a" where
  "py_index xs i =
     (if 0 \<le> i \<and> i < int (length xs) then Inr (xs ! nat i)
      else if i < 0 \<and> - int (length xs) \<le> i then Inr (xs ! nat (int (length xs) + i))
      else Inl IndexError)"

text \<open>
  A float that can be NaN: a real number or NaN. A probability that is missing in a row of
  the data frame is NaN there, not \<^verbatim>\<open>None\<close>, and \<^verbatim>\<open>push\<close> appends it.
\<close>

datatype pynum = Num real | NaN

record series_point =
  ip :: pynum
  point :: "pynum option"
  ts :: string

text \<open>\<^verbatim>\<open>st.session_state['buffers']\<close>: a dictionary from key to list of points.\<close>

type_synonym buffers = "string \<rightharpoonup> series_point list"

text \<open>
  \<^verbatim>\<open>push(market, ip_val, point_val)\<close>, a closure over the row's \<^verbatim>\<open>gid\<close> and the time
  \<^verbatim>\<open>now\<close> of the parse; the cap is \<^verbatim>\<open>config.default_history_len\<close>. It returns the
  dictionary after the call.
\<close>

definition push ::
  "Config \<Rightarrow> string \<Rightarrow> string \<Rightarrow> buffers \<Rightarrow> string \<Rightarrow> pynum option \<Rightarrow> pynum option \<Rightarrow> buffers" where
  "push c gid now bufs market ip_val point_val =
     (case ip_val of
        None \<Rightarrow> bufs
      | Some v \<Rightarrow>
          let key = gid @ ''|'' @ market;
              buf = (case bufs key of None \<Rightarrow> [] | Some b \<Rightarrow> b)
                    @ [\<lparr> ip = v, point = point_val, ts = now \<rparr>]
          in if int (length buf) > default_history_len c
             then bufs(key \<mapsto> slice_from (- default_history_len c) buf)
             else bufs(key \<mapsto> buf))"

text \<open>
  A run of calls of \<^verbatim>\<open>push\<close> for one game and one market, each with the time of its
  parse, a probability that is present, and an optional point value; \<open>point_of\<close> is the
  dictionary that such a call appends.
\<close>

type_synonym observation = "string \<times> pynum \<times> pynum option"

definition point_of :: "observation \<Rightarrow> series_point" where
  "point_of ob = (case ob of (now, v, pt) \<Rightarrow> \<lparr> ip = v, point = pt, ts = now \<rparr>)"

fun push_series :: "Config \<Rightarrow> string \<Rightarrow> string \<Rightarrow> buffers \<Rightarrow> observation list \<Rightarrow> buffers" where
  "push_series c gid market bufs [] = bufs"
| "push_series c gid market bufs ((now, v, pt) # rest) =
     push_series c gid market (push c gid now bufs market (Some v) pt) rest"

text \<open>\<^verbatim>\<open>buffers.get(key, [])\<close>: the points that a key holds.\<close>

definition held :: "buffers \<Rightarrow> string \<Rightarrow> series_point list" where
  "held bufs key = (case bufs key of None \<Rightarrow> [] | Some b \<Rightarrow> b)"

subsection \<open>Indicators (\<^verbatim>\<open>ta_engine.py\<close>)\<close>

definition np_mean :: "real list \<Rightarrow> py_error + real" where
  "np_mean xs = (if xs = [] then Inl NotANumber else Inr (sum_list xs / real (length xs)))"

text \<open>\<^verbatim>\<open>np.std\<close> of a non-empty array: the population standard deviation.\<close>

definition np_std :: "real list \<Rightarrow> real" where
  "np_std xs =
     (let mu = sum_list xs / real (length xs)
      in sqrt (sum_list (map (\<lambda>x. (x - mu)\<^sup>2) xs) / real (length xs)))"

definition np_diff :: "real list \<Rightarrow> real list" where
  "np_diff xs = map (\<lambda>(a, b). b - a) (zip xs (tl xs))"

definition rsi_from_ips :: "real list \<Rightarrow> int \<Rightarrow> py_error + real option" where
  "rsi_from_ips vals period =
     (if int (length vals) < period + 1 then Inr None
      else
        let deltas = np_diff vals;
            gains = map (\<lambda>d. if d > 0 then d else 0) deltas;
            losses = map (\<lambda>d. if d < 0 then - d else 0) deltas
        in case np_mean (slice_from (- period) gains) of
             Inl e \<Rightarrow> Inl e
           | Inr avg_gain \<Rightarrow>
               (case np_mean (slice_from (- period) losses) of
                  Inl e \<Rightarrow> Inl e
                | Inr avg_loss \<Rightarrow>
                    if avg_loss = 0 then Inr (Some 100)
                    else Inr (Some (100 - 100 / (1 + avg_gain / avg_loss)))))"

text \<open>\<^verbatim>\<open>int(x)\<close> on a float: truncation towards zero.\<close>

definition int_of_float :: "real \<Rightarrow> int" where
  "int_of_float x = (if x \<ge> 0 then \<lfloor>x\<rfloor> else \<lceil>x\<rceil>)"

text \<open>
  Lines 67 to 73 of \<^verbatim>\<open>adaptive_ma\<close>, up to the value of
  \<^verbatim>\<open>int((max_period - base_period) * eff * sensitivity)\<close>, for a non-empty array of at least
  \<^verbatim>\<open>base_period\<close> values. The standard deviation of an empty window is NaN, which is not
  equal to zero. In the \<^verbatim>\<open>else\<close> branch the index \<^verbatim>\<open>arr[-base_period]\<close> can be out of range;
  \<^verbatim>\<open>np.sqrt\<close> of a negative period is NaN and of a zero period makes the quotient infinite
  or NaN, and \<^verbatim>\<open>int\<close> raises \<^verbatim>\<open>ValueError\<close> on NaN and \<^verbatim>\<open>OverflowError\<close> on an infinity.
\<close>

definition period_increment :: "real list \<Rightarrow> int \<Rightarrow> int \<Rightarrow> real \<Rightarrow> py_error + int" where
  "period_increment arr base_period max_period sensitivity =
     (let window = slice_from (- base_period) arr
      in if window \<noteq> [] \<and> np_std window = 0
         then Inr (int_of_float (real_of_int (max_period - base_period) * 0 * sensitivity))
         else
           case py_index arr (- base_period) of
             Inl e \<Rightarrow> Inl e
           | Inr x \<Rightarrow>
               let direction = \<bar>last arr - x\<bar>
               in if base_period < 0 then Inl ValueError
                  else if base_period = 0 then
                    (if direction = 0 \<or> max_period - base_period = 0 \<or> sensitivity = 0
                     then Inl ValueError else Inl OverflowError)
                  else
                    let eff = direction / (np_std window * sqrt (real_of_int base_period))
                    in Inr (int_of_float
                              (real_of_int (max_period - base_period) * eff * sensitivity)))"

definition adaptive_ma :: "real list \<Rightarrow> int \<Rightarrow> int \<Rightarrow> real \<Rightarrow> py_error + real option" where
  "adaptive_ma vals base_period max_period sensitivity =
     (if vals = [] then Inr None
      else if int (length vals) < base_period then map_sum id Some (np_mean vals)
      else
        case period_increment vals base_period max_period sensitivity of
          Inl e \<Rightarrow> Inl e
        | Inr k \<Rightarrow>
            let adaptive_period = max base_period (min max_period (base_period + k))
            in map_sum id Some (np_mean (slice_from (- adaptive_period) vals)))"

text \<open>The defaults of the keyword arguments.\<close>

definition rsi_from_ips_default :: "real list \<Rightarrow> py_error + real option" where
  "rsi_from_ips_default vals = rsi_from_ips vals 14"

definition adaptive_ma_default :: "real list \<Rightarrow> py_error + real option" where
  "adaptive_ma_default vals = adaptive_ma vals 10 30 2"


subsection \<open>Recommendations (\<^verbatim>\<open>RecommendationEngine.generate_recommendation\<close>)\<close>

text \<open>
  The floats of the engine are of the type \<open>pynum\<close>. NaN reaches the engine from the series
  through \<^verbatim>\<open>momentum_from_ips\<close>. Every comparison with NaN is false and arithmetic with NaN
  gives NaN. An infinite value acts in every test and bound of the engine as a large real
  does.
\<close>

fun num_lt :: "pynum \<Rightarrow> pynum \<Rightarrow> bool" where
  "num_lt (Num x) (Num y) = (x < y)"
| "num_lt _ _ = False"

fun num_le :: "pynum \<Rightarrow> pynum \<Rightarrow> bool" where
  "num_le (Num x) (Num y) = (x \<le> y)"
| "num_le _ _ = False"

fun num_add :: "pynum \<Rightarrow> pynum \<Rightarrow> pynum" where
  "num_add (Num x) (Num y) = Num (x + y)"
| "num_add _ _ = NaN"

fun num_sub :: "pynum \<Rightarrow> pynum \<Rightarrow> pynum" where
  "num_sub (Num x) (Num y) = Num (x - y)"
| "num_sub _ _ = NaN"

fun num_mult :: "pynum \<Rightarrow> pynum \<Rightarrow> pynum" where
  "num_mult (Num x) (Num y) = Num (x * y)"
| "num_mult _ _ = NaN"

text \<open>Division by a constant other than zero (the engine divides by 0.05 only).\<close>

fun num_div :: "pynum \<Rightarrow> real \<Rightarrow> pynum" where
  "num_div (Num x) d = Num (x / d)"
| "num_div NaN d = NaN"

fun num_abs :: "pynum \<Rightarrow> pynum" where
  "num_abs (Num x) = Num \<bar>x\<bar>"
| "num_abs NaN = NaN"

text \<open>\<^verbatim>\<open>np.sign\<close>.\<close>

fun num_sign :: "pynum \<Rightarrow> pynum" where
  "num_sign (Num x) = Num (sgn x)"
| "num_sign NaN = NaN"

text \<open>The truth value of a float: every float but zero is true, NaN too.\<close>

fun num_truthy :: "pynum \<Rightarrow> bool" where
  "num_truthy (Num x) = (x \<noteq> 0)"
| "num_truthy NaN = True"

text \<open>
  The built-in \<^verbatim>\<open>min(a, b)\<close> and \<^verbatim>\<open>max(a, b)\<close>: the first argument, unless the second is
  smaller (larger). With a NaN as second argument the result is the first argument.
\<close>

definition py_min :: "pynum \<Rightarrow> pynum \<Rightarrow> pynum" where
  "py_min a b = (if num_lt b a then b else a)"

definition py_max :: "pynum \<Rightarrow> pynum \<Rightarrow> pynum" where
  "py_max a b = (if num_lt a b then b else a)"

text \<open>
  The arguments are typed by what their producers build. An indicator set is the
  dictionary of \<^verbatim>\<open>calculate_all_ta_indicators\<close>, of which the engine reads the keys
  \<^verbatim>\<open>momentum\<close> (the dictionary of \<^verbatim>\<open>momentum_from_ips\<close>, whose values are a float or
  \<^verbatim>\<open>None\<close>) and \<^verbatim>\<open>steam_detection\<close> (the dictionary of \<^verbatim>\<open>detect_steam_movement_advanced\<close>,
  whose confidence is \<^verbatim>\<open>min(1.0, score / 3.0)\<close> for a sum \<^verbatim>\<open>score\<close> of constants, a real
  number). A field of an indicator set is \<^term>\<open>None\<close> when the key is missing. In
  \<^verbatim>\<open>ta_indicators\<close> a market maps to \<^term>\<open>None\<close> when it holds a value that is not true
  (the empty dictionary that \<^verbatim>\<open>calculate_all_ta_indicators\<close> returns without data).

  A forecast is a dictionary with the keys of the forecast contract.
  \<^verbatim>\<open>f.get('projected_point_move')\<close> is \<^verbatim>\<open>None\<close> for a missing key and for the value \<^verbatim>\<open>None\<close>
  alike: the field is \<^term>\<open>None\<close> then. \<^verbatim>\<open>f.get('confidence', 0.0)\<close> tells them apart:
  the field is \<^term>\<open>None\<close> for a missing key, \<^term>\<open>Some None\<close> for the value \<^verbatim>\<open>None\<close>, and
  \<^term>\<open>Some (Some x)\<close> for a float. In \<^verbatim>\<open>forecasts\<close>, listed in iteration order, a market
  maps to \<^term>\<open>None\<close> when its forecast is not true.
\<close>

record momentum_rec =
  MOM_V :: "pynum option"
  MOM_A :: "pynum option"

record steam_rec =
  steam :: bool
  steam_confidence :: real
  signals :: "string list"

record indicator_set =
  momentum :: "momentum_rec option"
  steam_detection :: "steam_rec option"

type_synonym ta_indicators = "string \<rightharpoonup> indicator_set option"

record forecast =
  projected_point_move :: "pynum option"
  forecast_confidence :: "pynum option option"

type_synonym forecasts = "(string \<times> forecast option) list"

text \<open>
  A line of the narrative, before it is formatted: \<^verbatim>\<open>Spread MOM-V: v\<close>,
  \<^verbatim>\<open>Steam detected (conf c)\<close> and \<^verbatim>\<open>Forecast mk: move pm pts (conf c)\<close>.
\<close>

datatype narrative_line =
    SpreadMomV pynum
  | SteamDetected real
  | ForecastMove string pynum pynum

record recommendation =
  game_id :: pyval
  action :: string
  confidence :: pynum
  expected_value :: pynum
  kelly_stake :: pynum
  narrative :: "narrative_line list"
  triggered_indicators :: "string list"
  indicator_summary :: ta_indicators
  timestamp :: string

text \<open>
  Each part of the scoring returns what it adds to \<^verbatim>\<open>score\<close>, to \<^verbatim>\<open>narrative\<close> and to
  \<^verbatim>\<open>triggered\<close>. First the spread signals; a missing momentum dictionary counts as a
  momentum of \<^verbatim>\<open>0.0\<close>.
\<close>

definition spread_signals :: "ta_indicators \<Rightarrow> pynum \<times> narrative_line list \<times> string list" where
  "spread_signals ta =
     (case ta ''spread'' of
        Some (Some s) \<Rightarrow>
          let mom_v = (case momentum s of Some mom \<Rightarrow> MOM_V mom | None \<Rightarrow> Some (Num 0));
              (score1, narrative1, triggered1) =
                (case mom_v of
                   Some v \<Rightarrow>
                     (num_mult (num_sign v) (py_min (Num 0.5) (num_mult (num_abs v) (Num 100))),
                      [SpreadMomV v], [''spread_momentum''])
                 | None \<Rightarrow> (Num 0, [], []));
              (score2, narrative2, triggered2) =
                (case steam_detection s of
                   Some st \<Rightarrow>
                     if steam st
                     then (Num (0.3 * steam_confidence st), [SteamDetected (steam_confidence st)],
                           [''steam''])
                     else (Num 0, [], [])
                 | None \<Rightarrow> (Num 0, [], []))
          in (num_add score1 score2, narrative1 @ narrative2, triggered1 @ triggered2)
      | _ \<Rightarrow> (Num 0, [], []))"

text \<open>One pass of the loop over \<^verbatim>\<open>('away_ml', 'home_ml')\<close>.\<close>

definition moneyline_signal :: "ta_indicators \<Rightarrow> string \<Rightarrow> pynum \<times> string list" where
  "moneyline_signal ta side =
     (case ta side of
        Some (Some t) \<Rightarrow>
          let momv = (case momentum t of Some mom \<Rightarrow> MOM_V mom | None \<Rightarrow> Some (Num 0))
          in (case momv of
                Some v \<Rightarrow>
                  if num_truthy v
                  then (num_mult (num_sign v) (py_min (Num 0.4) (num_mult (num_abs v) (Num 120))),
                        [side @ ''_momentum''])
                  else (Num 0, [])
              | None \<Rightarrow> (Num 0, []))
      | _ \<Rightarrow> (Num 0, []))"

text \<open>
  The test \<^verbatim>\<open>pm and abs(pm) > 0.3 and conf > 0.6\<close> of line 48, evaluated from left to
  right: \<^verbatim>\<open>conf > 0.6\<close> is reached only when the first two parts hold, and raises
  \<^verbatim>\<open>TypeError\<close> when \<^verbatim>\<open>conf\<close> is \<^verbatim>\<open>None\<close>.
\<close>

definition forecast_qualifies :: "forecast \<Rightarrow> py_error + bool" where
  "forecast_qualifies fc =
     (case projected_point_move fc of
        None \<Rightarrow> Inr False
      | Some pm \<Rightarrow>
          if num_truthy pm \<and> num_lt (Num 0.3) (num_abs pm) then
            (case forecast_confidence fc of
               None \<Rightarrow> Inr (num_lt (Num 0.6) (Num 0))
             | Some None \<Rightarrow> Inl TypeError
             | Some (Some conf) \<Rightarrow> Inr (num_lt (Num 0.6) conf))
          else Inr False)"

text \<open>
  The loop over \<^verbatim>\<open>forecasts.items()\<close>, with \<^verbatim>\<open>score\<close> and the narrative lines that the
  loop has added so far; an exception ends the loop and the call.
\<close>

fun forecast_signals ::
  "forecasts \<Rightarrow> pynum \<Rightarrow> narrative_line list \<Rightarrow> py_error + pynum \<times> narrative_line list" where
  "forecast_signals [] score lines = Inr (score, lines)"
| "forecast_signals ((mk, f) # rest) score lines =
     (case f of
        None \<Rightarrow> forecast_signals rest score lines
      | Some fc \<Rightarrow>
          (case forecast_qualifies fc of
             Inl e \<Rightarrow> Inl e
           | Inr False \<Rightarrow> forecast_signals rest score lines
           | Inr True \<Rightarrow>
               (case (projected_point_move fc, forecast_confidence fc) of
                  (Some pm, Some (Some conf)) \<Rightarrow>
                    forecast_signals rest
                      (num_add score (num_mult (Num 0.2) (num_sign pm)))
                      (lines @ [ForecastMove mk pm conf])
                | _ \<Rightarrow> forecast_signals rest score lines)))"

text \<open>
  \<^verbatim>\<open>score\<close>, \<^verbatim>\<open>narrative\<close> and \<^verbatim>\<open>triggered\<close> when line 52 is reached, or the exception
  raised before.
\<close>

definition score_signals ::
  "ta_indicators \<Rightarrow> forecasts \<Rightarrow> py_error + pynum \<times> narrative_line list \<times> string list" where
  "score_signals ta fcs =
     (let (score_s, narrative_s, triggered_s) = spread_signals ta;
          (score_a, triggered_a) = moneyline_signal ta ''away_ml'';
          (score_h, triggered_h) = moneyline_signal ta ''home_ml''
      in case forecast_signals fcs (num_add (num_add score_s score_a) score_h) [] of
           Inl e \<Rightarrow> Inl e
         | Inr (score, narrative_f) \<Rightarrow>
             Inr (score, narrative_s @ narrative_f, triggered_s @ triggered_a @ triggered_h))"

text \<open>
  Lines 52 to 81. The two clamp tests and the two action tests are comparisons, false for
  a NaN; \<^verbatim>\<open>max\<close> and \<^verbatim>\<open>min\<close> are the built-in functions.
\<close>

definition recommend ::
  "Config \<Rightarrow> string \<Rightarrow> row \<Rightarrow> ta_indicators \<Rightarrow> pynum \<Rightarrow> narrative_line list \<Rightarrow> string list
     \<Rightarrow> recommendation" where
  "recommend c now game_row ta score narrative_lines triggered =
     (let confidence0 = num_add (Num 0.5) score;
          confidence1 = (if num_lt (Num 0.95) confidence0 then Num 0.95 else confidence0);
          confidence2 = (if num_lt confidence1 (Num 0.05) then Num 0.05 else confidence1);
          act = (if num_le (Num (strong_confidence_threshold c)) confidence2 then ''Back''
                 else if num_le confidence2 (Num (min_confidence_for_action c - 0.1)) then ''Fade''
                 else ''Hold'');
          ev = num_mult (num_sub confidence2 (Num 0.5)) (Num 0.12);
          kelly = py_max (Num 0) (py_min (Num (kelly_fraction_cap c)) (num_div ev 0.05))
      in \<lparr> game_id = row_get game_row ''game_id'',
           action = act,
           confidence = confidence2,
           expected_value = ev,
           kelly_stake = kelly,
           narrative = narrative_lines,
           triggered_indicators = triggered,
           indicator_summary = ta,
           timestamp = now \<rparr>)"

definition generate_recommendation ::
  "Config \<Rightarrow> string \<Rightarrow> row \<Rightarrow> ta_indicators \<Rightarrow> forecasts \<Rightarrow> py_error + recommendation" where
  "generate_recommendation c now game_row ta fcs =
     (case score_signals ta fcs of
        Inl e \<Rightarrow> Inl e
      | Inr (score, narrative_lines, triggered) \<Rightarrow>
          Inr (recommend c now game_row ta score narrative_lines triggered))"

text \<open>
  An indicator map with a spread momentum of 0.01, no steam, and an away moneyline whose
  momentum is not available; and one whose away moneyline has a momentum of NaN.
\<close>

definition spread_only :: ta_indicators where
  "spread_only =
     [''spread'' \<mapsto> Some \<lparr> momentum = Some \<lparr> MOM_V = Some (Num 0.01), MOM_A = None \<rparr>,
                            steam_detection = Some \<lparr> steam = False, steam_confidence = 0, signals = [] \<rparr> \<rparr>,
      ''away_ml'' \<mapsto> Some \<lparr> momentum = Some \<lparr> MOM_V = None, MOM_A = None \<rparr>,
                             steam_detection = None \<rparr>]"

definition nan_moneyline :: ta_indicators where
  "nan_moneyline =
     [''away_ml'' \<mapsto> Some \<lparr> momentum = Some \<lparr> MOM_V = Some NaN, MOM_A = None \<rparr>,
                             steam_detection = Some \<lparr> steam = False, steam_confidence = 0, signals = [] \<rparr> \<rparr>]"

text \<open>The sum of a pair of probabilities, when both are present.\<close>

definition pair_sum :: "real option \<times> real option \<Rightarrow> real option" where
  "pair_sum pq = (case pq of (Some p, Some q) \<Rightarrow> Some (p + q) | _ \<Rightarrow> None)"

section \<open>Verified properties\<close>

subsection \<open>Odds normalization\<close>

lemma raw_or_zero_in_range:
  assumes "\<bar>k\<bar> < float_limit"
  shows "\<exists>p. raw_or_zero (Some k) = Inr p \<and> 0 \<le> p \<and> (k \<noteq> 0 \<longrightarrow> 0 < p)"
  using assms
  by (auto simp: raw_or_zero_def american_to_prob_raw_def float_of_int_def
        divide_le_0_iff divide_less_0_iff)

text \<open>
  For two odds within the float range that are not both 0 the two results are
  probabilities that sum to 1, and the pair (-110, -110) gives exactly (0.5, 0.5).
\<close>

lemma normalize_two_way_in_range:
  assumes "\<bar>a\<bar> < float_limit" and "\<bar>b\<bar> < float_limit" and "a \<noteq> 0 \<or> b \<noteq> 0"
  shows "map_sum id pair_sum (normalize_two_way (Some a) (Some b)) = Inr (Some 1)"
proof -
  obtain p where p: "raw_or_zero (Some a) = Inr p" "0 \<le> p" "a \<noteq> 0 \<longrightarrow> 0 < p"
    using raw_or_zero_in_range[OF assms(1)] by blast
  obtain q where q: "raw_or_zero (Some b) = Inr q" "0 \<le> q" "b \<noteq> 0 \<longrightarrow> 0 < q"
    using raw_or_zero_in_range[OF assms(2)] by blast
  have "0 < p + q" using p(2,3) q(2,3) assms(3) by auto
  then show ?thesis
    by (simp add: normalize_two_way_def p(1) q(1) pair_sum_def Let_def
          add_divide_distrib[symmetric])
qed

lemma normalize_two_way_symmetric:
  "normalize_two_way (Some (- 110)) (Some (- 110)) = Inr (Some 0.5, Some 0.5)"
  by (simp add: normalize_two_way_def raw_or_zero_def american_to_prob_raw_def
        float_of_int_def float_limit_def)

text \<open>
  Claim C2: with both sides present the result should be two probabilities that sum to 1,
  as the docstring says. For the odds 0 and 0 both raw probabilities are 0.0, the test
  \<^verbatim>\<open>total == 0\<close> holds, and the fallback for a missing side returns \<^verbatim>\<open>(None, 0.0)\<close>.
\<close>

theorem normalize_two_way_zero_odds:
  "normalize_two_way (Some 0) (Some 0) = Inr (None, Some 0)"
  by (simp add: normalize_two_way_def raw_or_zero_def american_to_prob_raw_def
        float_of_int_def float_limit_def)

text \<open>
  Claim C9: with exactly one side missing the result should pair the raw probability of
  the present side with \<^verbatim>\<open>None\<close>. At odds -110 against a missing side the raw probability
  is 11/21, yet the code returns the normalized pair (1.0, 0.0): the total is not zero, so
  the branch that the docstring describes is not taken.
\<close>

theorem normalize_two_way_one_side_missing:
  "normalize_two_way (Some (- 110)) None = Inr (Some 1, Some 0) \<and>
   american_to_prob_raw (Some (- 110)) = Inr (Some (11 / 21))"
  by (simp add: normalize_two_way_def raw_or_zero_def american_to_prob_raw_def
        float_of_int_def float_limit_def)

text \<open>An integer beyond the float range raises \<^verbatim>\<open>OverflowError\<close>.\<close>

lemma normalize_two_way_overflow:
  "normalize_two_way (Some (10 ^ 309)) (Some (- 110)) = Inl OverflowError"
  by (simp add: normalize_two_way_def raw_or_zero_def american_to_prob_raw_def
        float_of_int_def float_limit_def)


subsection \<open>The 5-line grammar\<close>

text \<open>
  Claim C3: the 5-line block of the specification maps to a record with spread points
  -3.5, favorite team TeamA, total points 45.5, total side over, away moneyline -150, home
  moneyline 130, and moneyline probabilities that sum to 1; \<open>parse_feed\<close> in mode \<^verbatim>\<open>5line\<close>
  returns this record for a feed of a header line and the block.
\<close>

theorem parse_5line_example:
  "(case parse_5line now
           [''01/01 7:00pm TeamA -3.5'', ''-110'', ''o45.5'', ''-110'', ''-150 +130''] of
      None \<Rightarrow> False
    | Some r \<Rightarrow>
        row_get r ''spread_points'' = VFloat (- 3.5) \<and>
        row_get r ''favorite_team'' = VStr ''TeamA'' \<and>
        row_get r ''total_points'' = VFloat 45.5 \<and>
        row_get r ''total_side'' = VStr ''over'' \<and>
        row_get r ''away_ml'' = VInt (- 150) \<and>
        row_get r ''home_ml'' = VInt 130 \<and>
        (case (row_get r ''away_ml_ip_raw'', row_get r ''home_ml_ip_raw'') of
           (VFloat p, VFloat q) \<Rightarrow> p + q = 1
         | _ \<Rightarrow> False) \<and>
        fst (parse_feed new_parser now
               (feed_text [''header'', ''01/01 7:00pm TeamA -3.5'', ''-110'', ''o45.5'', ''-110'',
                           ''-150 +130''])
               ''5line'') = Inr [r])"
  by code_simp

subsection \<open>Feed parsing\<close>

text \<open>
  Claim C1: \<open>parse_feed\<close> should never raise. A feed of a header line and one 4-line block,
  parsed in mode \<^verbatim>\<open>4line\<close>, raises \<^verbatim>\<open>AttributeError\<close>: the mapping loop reads
  \<^verbatim>\<open>cfg.parse_4line_blocks\<close>, and \<^verbatim>\<open>Config\<close> declares \<^verbatim>\<open>parse_4_line_blocks\<close>.
\<close>

theorem parse_feed_raises_on_4line_block:
  "fst (parse_feed new_parser now
          (feed_text [''header'', ''01/01 7:00pm -150 +130 8.5'', ''-110'', ''TeamA -1.5'', ''+120''])
          ''4line'')
     = Inl AttributeError"
  by code_simp

text \<open>The same holds for every block of four lines and every configuration.\<close>

lemma map_block_four_lines: "length b = 4 \<Longrightarrow> map_block c now b = Inl AttributeError"
  by (simp add: map_block_def Config_getattr_def)

text \<open>
  In the default mode \<^verbatim>\<open>auto\<close> the module's configuration makes the grouping loop flush at
  four lines, so there the 5-line feed of the specification raises as well.
\<close>

lemma parse_feed_auto_raises:
  "fst (parse_feed new_parser now
          (feed_text [''header'', ''01/01 7:00pm TeamA -3.5'', ''-110'', ''o45.5'', ''-110'',
                      ''-150 +130''])
          ''auto'')
     = Inl AttributeError"
  by code_simp

subsection \<open>Adaptive moving average\<close>

text \<open>
  Claim C6, as amended. \<open>adaptive_ma\<close> with the default periods returns \<^verbatim>\<open>None\<close> for the empty
  list; for a non-empty list of fewer than 10 values it returns the mean of all values.
\<close>

theorem adaptive_ma_below_base:
  "adaptive_ma_default [] = Inr None \<and>
   (vals \<noteq> [] \<and> length vals < 10 \<longrightarrow>
      adaptive_ma_default vals = Inr (Some (sum_list vals / real (length vals))))"
  by (simp add: adaptive_ma_default_def adaptive_ma_def np_mean_def)

theorem adaptive_ma_below_base_witness:
  "adaptive_ma_default [4, 6] = Inr (Some 5)"
  using adaptive_ma_below_base[of "[4, 6]"] by simp

text \<open>
  Claim C6 as stated fails for three values: the result is their mean, not \<^verbatim>\<open>None\<close>.
\<close>

theorem adaptive_ma_three_values:
  "adaptive_ma_default [1, 2, 3] = Inr (Some 2)"
  by (simp add: adaptive_ma_default_def adaptive_ma_def np_mean_def)

subsection \<open>Recommendations\<close>

text \<open>
  Claim C5: the confidence should lie in [0.05, 0.95], the expected value be
  (confidence - 0.5) * 0.12 and the stake be the expected value over 0.05 clamped to
  [0, 0.20]. With a NaN momentum of the away moneyline the score is NaN; both clamp tests
  of lines 54 to 57 are false for NaN, so the confidence is NaN, outside the interval, the
  expected value is NaN, and \<^verbatim>\<open>min(0.20, nan)\<close> makes the stake 0.20.
\<close>

theorem generate_recommendation_nan:
  "map_sum id (\<lambda>r. (action r, confidence r, expected_value r, kelly_stake r))
     (generate_recommendation config ''2024-01-01T00:00:00'' [(''game_id'', VStr ''g'')]
        nan_moneyline [])
   = Inr (''Hold'', NaN, NaN, Num 0.2)"
  by (simp add: generate_recommendation_def recommend_def score_signals_def spread_signals_def
        moneyline_signal_def nan_moneyline_def config_def py_min_def py_max_def Let_def)

text \<open>
  A forecast whose move passes the first two tests of line 48 and whose confidence is
  \<^verbatim>\<open>None\<close> raises \<^verbatim>\<open>TypeError\<close>.
\<close>

lemma generate_recommendation_none_confidence:
  "generate_recommendation config now g Map.empty
     [(''total'', Some \<lparr> projected_point_move = Some (Num 0.5), forecast_confidence = Some None \<rparr>)]
   = Inl TypeError"
  by (simp add: generate_recommendation_def score_signals_def spread_signals_def
        moneyline_signal_def forecast_qualifies_def Let_def)

lemma recommend_confidence:
  "confidence (recommend c now g ta (Num s) nl tr) = Num (max 0.05 (min 0.95 (0.5 + s)))"
  by (simp add: recommend_def Let_def max_def min_def)

lemma recommend_action:
  "action (recommend c now g ta score nl tr) \<in> {''Back'', ''Fade'', ''Hold''}"
  by (simp add: recommend_def Let_def)

lemma recommend_expected_value:
  "expected_value (recommend c now g ta (Num s) nl tr)
     = Num ((max 0.05 (min 0.95 (0.5 + s)) - 0.5) * 0.12)"
  by (simp add: recommend_def Let_def max_def min_def)

lemma recommend_kelly_stake:
  "kelly_stake (recommend config now g ta (Num s) nl tr)
     = Num (max 0 (min 0.20 ((max 0.05 (min 0.95 (0.5 + s)) - 0.5) * 0.12 / 0.05)))"
proof -
  have cap: "kelly_fraction_cap config = 0.20" by (simp add: config_def)
  show ?thesis
    by (simp add: recommend_def cap py_min_def py_max_def Let_def max_def min_def)
qed

text \<open>
  Where the score is a real number the claimed ranges hold: the confidence is the score
  plus 0.5 clamped to [0.05, 0.95], and the stake lies in [0, 0.20].
\<close>

lemma generate_recommendation_ranges:
  assumes "score_signals ta fcs = Inr (Num s, nl, tr)"
  shows "\<exists>r cf k. generate_recommendation config now g ta fcs = Inr r \<and>
           confidence r = Num cf \<and> 0.05 \<le> cf \<and> cf \<le> 0.95 \<and>
           action r \<in> {''Back'', ''Fade'', ''Hold''} \<and>
           expected_value r = Num ((cf - 0.5) * 0.12) \<and>
           kelly_stake r = Num k \<and> 0 \<le> k \<and> k \<le> 0.20 \<and>
           k = max 0 (min 0.20 ((cf - 0.5) * 0.12 / 0.05))"
proof -
  let ?r = "recommend config now g ta (Num s) nl tr"
  let ?cf = "max 0.05 (min 0.95 (0.5 + s)) :: real"
  let ?k = "max 0 (min 0.20 ((?cf - 0.5) * 0.12 / 0.05)) :: real"
  have "generate_recommendation config now g ta fcs = Inr ?r"
    by (simp add: generate_recommendation_def assms)
  moreover have "confidence ?r = Num ?cf" by (rule recommend_confidence)
  moreover have "0.05 \<le> ?cf" and "?cf \<le> 0.95" by (simp_all add: max_def min_def)
  moreover have "action ?r \<in> {''Back'', ''Fade'', ''Hold''}" by (rule recommend_action)
  moreover have "expected_value ?r = Num ((?cf - 0.5) * 0.12)" by (rule recommend_expected_value)
  moreover have "kelly_stake ?r = Num ?k" by (rule recommend_kelly_stake)
  moreover have "0 \<le> ?k" and "?k \<le> 0.20" by (simp_all add: max_def min_def)
  ultimately show ?thesis by blast
qed

lemma forecast_signals_none:
  assumes "\<And>mk fc. (mk, Some fc) \<in> set fcs \<Longrightarrow> forecast_qualifies fc = Inr False"
  shows "forecast_signals fcs score lines = Inr (score, lines)"
  using assms
proof (induction fcs)
  case Nil
  then show ?case by simp
next
  case (Cons p rest)
  obtain mk f where p: "p = (mk, f)" by (cases p) auto
  have rest: "forecast_signals rest score lines = Inr (score, lines)"
    using Cons.IH Cons.prems by (meson list.set_intros(2))
  show ?case
  proof (cases f)
    case None
    then show ?thesis using rest by (simp add: p)
  next
    case (Some fc)
    then have "forecast_qualifies fc = Inr False"
      using Cons.prems[of mk fc] by (simp add: p)
    then show ?thesis using rest Some by (simp add: p)
  qed
qed

lemma moneyline_signal_none:
  assumes "\<And>t mm. ta side = Some (Some t) \<Longrightarrow> momentum t = Some mm \<Longrightarrow>
             MOM_V mm = None \<or> MOM_V mm = Some (Num 0)"
  shows "moneyline_signal ta side = (Num 0, [])"
proof (cases "ta side")
  case None
  then show ?thesis by (simp add: moneyline_signal_def)
next
  case (Some v)
  show ?thesis
  proof (cases v)
    case None
    then show ?thesis using Some by (simp add: moneyline_signal_def)
  next
    case inner: (Some t)
    show ?thesis
    proof (cases "momentum t")
      case None
      then show ?thesis using Some inner by (simp add: moneyline_signal_def)
    next
      case mom: (Some mm)
      have "MOM_V mm = None \<or> MOM_V mm = Some (Num 0)"
        using assms[of t mm] Some inner mom by simp
      then show ?thesis using Some inner mom by (auto simp: moneyline_signal_def)
    qed
  qed
qed

lemma spread_signals_momentum:
  assumes "ta ''spread'' = Some (Some s)" and "momentum s = Some m"
    and "MOM_V m = Some (Num 0.01)"
    and "\<And>st. steam_detection s = Some st \<Longrightarrow> \<not> steam st"
  shows "fst (spread_signals ta) = Num 0.5"
proof (cases "steam_detection s")
  case None
  then show ?thesis using assms(1-3)
    by (simp add: spread_signals_def py_min_def Let_def)
next
  case (Some st)
  then have "\<not> steam st" using assms(4) by simp
  then show ?thesis using assms(1-3) Some
    by (simp add: spread_signals_def py_min_def Let_def)
qed

text \<open>
  Claim C7: when the spread indicators report MOM_V = 0.01, steam is not detected, neither
  moneyline has a momentum other than zero and the test of line 48 is false for every
  forecast, the score is 0.5, the confidence is clamped to 0.95 and the action is Back.
\<close>

theorem spread_momentum_backs:
  assumes "ta ''spread'' = Some (Some s)" and "momentum s = Some m"
    and "MOM_V m = Some (Num 0.01)"
    and "\<And>st. steam_detection s = Some st \<Longrightarrow> \<not> steam st"
    and "\<And>side t mm. side = ''away_ml'' \<or> side = ''home_ml'' \<Longrightarrow> ta side = Some (Some t) \<Longrightarrow>
            momentum t = Some mm \<Longrightarrow> MOM_V mm = None \<or> MOM_V mm = Some (Num 0)"
    and "\<And>mk fc. (mk, Some fc) \<in> set fcs \<Longrightarrow> forecast_qualifies fc = Inr False"
  shows "map_sum id fst (score_signals ta fcs) = Inr (Num 0.5) \<and>
         map_sum id (\<lambda>r. (confidence r, action r))
           (generate_recommendation config now g ta fcs) = Inr (Num 0.95, ''Back'')"
proof -
  have "fst (spread_signals ta) = Num 0.5"
    using assms(1-4) by (rule spread_signals_momentum)
  then obtain nl tr where sp: "spread_signals ta = (Num 0.5, nl, tr)"
    by (cases "spread_signals ta") auto
  have aw: "moneyline_signal ta ''away_ml'' = (Num 0, [])"
    using assms(5)[of "''away_ml''"] by (intro moneyline_signal_none) blast
  have ho: "moneyline_signal ta ''home_ml'' = (Num 0, [])"
    using assms(5)[of "''home_ml''"] by (intro moneyline_signal_none) blast
  have fc: "\<And>sc. forecast_signals fcs sc [] = Inr (sc, [])"
    using assms(6) by (intro forecast_signals_none) blast
  have score: "score_signals ta fcs = Inr (Num 0.5, nl, tr)"
    by (simp add: score_signals_def sp aw ho fc)
  have "confidence (recommend config now g ta (Num 0.5) nl tr) = Num 0.95"
    and "action (recommend config now g ta (Num 0.5) nl tr) = ''Back''"
    by (simp_all add: recommend_def config_def Let_def)
  then show ?thesis by (simp add: generate_recommendation_def score)
qed

theorem spread_momentum_backs_witness:
  "map_sum id fst (score_signals spread_only
      [(''total'', Some \<lparr> projected_point_move = Some (Num 0.1), forecast_confidence = Some (Some (Num 0.9)) \<rparr>)])
     = Inr (Num 0.5) \<and>
   map_sum id (\<lambda>r. (confidence r, action r))
     (generate_recommendation config ''2024-01-01T00:00:00'' [(''game_id'', VStr ''g'')] spread_only
        [(''total'', Some \<lparr> projected_point_move = Some (Num 0.1), forecast_confidence = Some (Some (Num 0.9)) \<rparr>)])
     = Inr (Num 0.95, ''Back'')"
  by (rule spread_momentum_backs[where
         s = "\<lparr> momentum = Some \<lparr> MOM_V = Some (Num 0.01), MOM_A = None \<rparr>,
               steam_detection = Some \<lparr> steam = False, steam_confidence = 0, signals = [] \<rparr> \<rparr>"
         and m = "\<lparr> MOM_V = Some (Num 0.01), MOM_A = None \<rparr>"])
     (auto simp: spread_only_def forecast_qualifies_def split: if_splits)

subsection \<open>Relative strength index\<close>

lemma set_slice_from: "set (slice_from k xs) \<subseteq> set xs"
  by (simp add: slice_from_def Let_def set_drop_subset)

lemma slice_from_nonempty:
  assumes "1 \<le> p" and "xs \<noteq> []"
  shows "slice_from (- p) xs \<noteq> []"
proof -
  have "0 < length xs" using assms(2) by simp
  then have "nat (max (int (length xs) - p) 0) < length xs"
    using assms(1) by arith
  then show ?thesis using assms(1) by (simp add: slice_from_def Let_def)
qed

lemma np_mean_nonneg:
  assumes "xs \<noteq> []" and "\<And>x. x \<in> set xs \<Longrightarrow> 0 \<le> x"
  shows "\<exists>m. np_mean xs = Inr m \<and> 0 \<le> m"
proof -
  have "0 \<le> sum_list xs" using assms(2) by (simp add: sum_list_nonneg)
  then show ?thesis using assms(1) by (simp add: np_mean_def)
qed

lemma length_np_diff: "length (np_diff xs) = length xs - 1"
  by (simp add: np_diff_def)

lemma rsi_value_range:
  fixes g l :: real
  assumes "0 \<le> g" and "0 < l"
  shows "0 \<le> 100 - 100 / (1 + g / l) \<and> 100 - 100 / (1 + g / l) \<le> 100"
proof -
  have "1 \<le> 1 + g / l" using assms by simp
  then have "100 / (1 + g / l) \<le> 100" and "0 \<le> 100 / (1 + g / l)"
    by (simp_all add: divide_le_eq)
  then show ?thesis by simp
qed

text \<open>
  Claim C10: for a period of at least 1 (the default is 14), a list of at least period + 1
  values has an RSI in the closed interval [0, 100], and a shorter list has none.
\<close>

theorem rsi_from_ips_range:
  assumes "1 \<le> period"
  shows "(period + 1 \<le> int (length vals) \<longrightarrow>
           (\<exists>r. rsi_from_ips vals period = Inr (Some r) \<and> 0 \<le> r \<and> r \<le> 100)) \<and>
         (int (length vals) < period + 1 \<longrightarrow> rsi_from_ips vals period = Inr None)"
proof (intro conjI impI)
  assume "int (length vals) < period + 1"
  then show "rsi_from_ips vals period = Inr None" by (simp add: rsi_from_ips_def)
next
  assume len: "period + 1 \<le> int (length vals)"
  define gains where "gains = map (\<lambda>d. if d > 0 then d else 0) (np_diff vals)"
  define losses where "losses = map (\<lambda>d. if d < 0 then - d else 0) (np_diff vals)"
  have ne: "np_diff vals \<noteq> []"
    using len assms length_np_diff[of vals] by (cases "np_diff vals") auto
  have gne: "slice_from (- period) gains \<noteq> []" and lne: "slice_from (- period) losses \<noteq> []"
    using ne assms by (simp_all add: slice_from_nonempty gains_def losses_def)
  have gpos: "\<And>x. x \<in> set (slice_from (- period) gains) \<Longrightarrow> 0 \<le> x"
    using set_slice_from[of "- period" gains] by (auto simp: gains_def)
  have lpos: "\<And>x. x \<in> set (slice_from (- period) losses) \<Longrightarrow> 0 \<le> x"
    using set_slice_from[of "- period" losses] by (auto simp: losses_def)
  obtain g where g: "np_mean (slice_from (- period) gains) = Inr g" "0 \<le> g"
    using np_mean_nonneg[OF gne gpos] by blast
  obtain l where l: "np_mean (slice_from (- period) losses) = Inr l" "0 \<le> l"
    using np_mean_nonneg[OF lne lpos] by blast
  have eq: "rsi_from_ips vals period =
              (if l = 0 then Inr (Some 100) else Inr (Some (100 - 100 / (1 + g / l))))"
    using len g(1) l(1)
    by (simp add: rsi_from_ips_def Let_def gains_def[symmetric] losses_def[symmetric])
  show "\<exists>r. rsi_from_ips vals period = Inr (Some r) \<and> 0 \<le> r \<and> r \<le> 100"
  proof (cases "l = 0")
    case True
    then show ?thesis using eq by simp
  next
    case False
    then have "0 < l" using l(2) by simp
    then show ?thesis using eq False rsi_value_range[OF g(2), of l] by simp
  qed
qed

theorem rsi_from_ips_range_witness:
  "(\<exists>r. rsi_from_ips [0.5, 0.52, 0.51, 0.53, 0.55, 0.54, 0.56, 0.58, 0.57, 0.59,
                        0.6, 0.62, 0.61, 0.63, 0.65] 14 = Inr (Some r) \<and> 0 \<le> r \<and> r \<le> 100) \<and>
   rsi_from_ips [0.5, 0.52, 0.51] 14 = Inr None"
  using rsi_from_ips_range[of 14 "[0.5, 0.52, 0.51, 0.53, 0.55, 0.54, 0.56, 0.58, 0.57, 0.59,
                        0.6, 0.62, 0.61, 0.63, 0.65]"]
        rsi_from_ips_range[of 14 "[0.5, 0.52, 0.51]"]
  by simp

subsection \<open>Series buffers\<close>

lemma slice_from_last:
  assumes "1 \<le> C"
  shows "slice_from (- C) xs = drop (length xs - nat C) xs"
proof -
  have "nat (max (int (length xs) - C) 0) = length xs - nat C" using assms by arith
  then show ?thesis using assms by (simp add: slice_from_def Let_def)
qed

lemma push_held:
  assumes "1 \<le> default_history_len c"
  shows "push c gid now bufs market (Some v) pt (gid @ ''|'' @ market) =
           Some (drop (length (held bufs (gid @ ''|'' @ market)) + 1 - nat (default_history_len c))
                   (held bufs (gid @ ''|'' @ market) @ [point_of (now, v, pt)]))"
proof -
  let ?buf = "held bufs (gid @ ''|'' @ market) @ [point_of (now, v, pt)]"
  show ?thesis
  proof (cases "int (length ?buf) > default_history_len c")
    case True
    then show ?thesis
      using slice_from_last[OF assms, of ?buf]
      by (simp add: push_def held_def point_of_def Let_def)
  next
    case False
    then have "length ?buf - nat (default_history_len c) = 0" by simp
    then show ?thesis using False
      by (simp add: push_def held_def point_of_def Let_def)
  qed
qed

lemma drop_drop_append:
  "drop (length (drop (length xs - C) xs) + length ys - C) (drop (length xs - C) xs @ ys)
     = drop (length xs + length ys - C) (xs @ ys)"
  by (cases "length xs \<le> C") (auto simp: add.commute)

lemma push_series_held:
  assumes "1 \<le> default_history_len c" and "obs \<noteq> []"
  shows "push_series c gid market bufs obs (gid @ ''|'' @ market) =
           Some (drop (length (held bufs (gid @ ''|'' @ market)) + length obs
                         - nat (default_history_len c))
                   (held bufs (gid @ ''|'' @ market) @ map point_of obs))"
  using assms(2)
proof (induction obs arbitrary: bufs)
  case Nil
  then show ?case by simp
next
  case (Cons ob rest)
  obtain now v pt where ob: "ob = (now, v, pt)" by (cases ob) auto
  define key where "key = gid @ ''|'' @ market"
  define C where "C = nat (default_history_len c)"
  define bufs' where "bufs' = push c gid now bufs market (Some v) pt"
  define xs where "xs = held bufs key @ [point_of ob]"
  define ys where "ys = map point_of rest"
  have one: "bufs' key = Some (drop (length xs - C) xs)"
    using push_held[OF assms(1), of gid now bufs market v pt]
    by (simp add: bufs'_def key_def C_def xs_def ob)
  then have h: "held bufs' key = drop (length xs - C) xs"
    by (simp add: held_def)
  show ?case
  proof (cases "rest = []")
    case True
    then show ?thesis using one
      by (simp add: ob bufs'_def key_def C_def xs_def)
  next
    case False
    have "push_series c gid market bufs (ob # rest) key = push_series c gid market bufs' rest key"
      by (simp add: ob bufs'_def)
    also have "\<dots> = Some (drop (length (held bufs' key) + length rest - C)
                             (held bufs' key @ map point_of rest))"
      using Cons.IH[OF False, of bufs'] by (simp add: key_def C_def)
    also have "\<dots> = Some (drop (length (drop (length xs - C) xs) + length ys - C)
                             (drop (length xs - C) xs @ ys))"
      by (simp only: h ys_def length_map)
    also have "\<dots> = Some (drop (length xs + length ys - C) (xs @ ys))"
      by (simp only: drop_drop_append)
    also have "\<dots> = Some (drop (length (held bufs key) + length (ob # rest) - C)
                             (held bufs key @ map point_of (ob # rest)))"
      by (simp add: xs_def ys_def)
    finally show ?thesis by (simp only: key_def C_def)
  qed
qed


text \<open>
  For every cap of at least 1 the key holds the last cap points once more than cap have
  been appended, whatever the dictionary held before.
\<close>

lemma push_series_last:
  assumes "1 \<le> default_history_len c" and "default_history_len c < int (length obs)"
  shows "push_series c gid market bufs obs (gid @ ''|'' @ market) =
           Some (map point_of (drop (length obs - nat (default_history_len c)) obs))"
proof -
  let ?key = "gid @ ''|'' @ market"
  let ?C = "nat (default_history_len c)"
  have ne: "obs \<noteq> []" using assms by auto
  have le: "?C \<le> length obs" using assms by simp
  have "drop (length (held bufs ?key) + length obs - ?C) (held bufs ?key @ map point_of obs)
          = map point_of (drop (length obs - ?C) obs)"
    using le by (simp add: drop_map)
  then show ?thesis using push_series_held[OF assms(1) ne, of gid market bufs] by simp
qed

text \<open>
  Claim C4: the cap of the program is \<^verbatim>\<open>config.default_history_len\<close>, 300. For every key,
  after N calls of \<open>push\<close> with N > 300, whatever the dictionary held before, the key holds
  exactly 300 points: the last 300 appended, in the order of the calls.
\<close>

theorem push_series_fifo:
  assumes "default_history_len config < int (length obs)"
  shows "default_history_len config = 300 \<and>
         push_series config gid market bufs obs (gid @ ''|'' @ market) =
           Some (map point_of (drop (length obs - 300) obs)) \<and>
         length (map point_of (drop (length obs - 300) obs)) = 300"
proof -
  have cap: "default_history_len config = 300" by (simp add: config_def)
  have "push_series config gid market bufs obs (gid @ ''|'' @ market) =
          Some (map point_of (drop (length obs - nat (default_history_len config)) obs))"
    using assms by (intro push_series_last) (simp_all add: cap)
  then show ?thesis using assms by (simp add: cap)
qed

theorem push_series_fifo_witness:
  "push_series config ''g'' ''spread'' Map.empty
      (map (\<lambda>i. (''t'', Num (real i), None)) [0..<301]) ''g|spread''
     = Some (map (\<lambda>i. \<lparr> ip = Num (real i), point = None, ts = ''t'' \<rparr>) [1..<301])"
  using push_series_fifo[of "map (\<lambda>i. (''t'', Num (real i), None)) [0..<301]" "''g''" "''spread''" Map.empty]
  by (simp add: config_def drop_map point_of_def comp_def)

subsection \<open>Grouping lines into blocks\<close>


lemma group_lines_step:
  "group_lines c bt (line # rest) cur blocks =
     (if expect_size c bt (Suc (length cur)) = Some (Suc (length cur))
      then group_lines c bt rest [] (blocks @ [cur @ [line]])
      else group_lines c bt rest (cur @ [line]) blocks)"
  by (auto simp: Let_def split: option.splits)

lemma block_size_flush:
  "block_size c bt = Some n \<Longrightarrow> expect_size c bt n = Some n \<and> 0 < n \<and> n \<le> 5"
  by (auto simp: block_size_def expect_size_def split: if_splits)

lemma block_size_wait:
  "block_size c bt = Some n \<Longrightarrow> k < n \<Longrightarrow> expect_size c bt k \<noteq> Some k"
  by (auto simp: block_size_def expect_size_def split: if_splits)

lemma group_lines_chunks:
  assumes "block_size c bt = Some n" and "length cur < n"
  shows "\<exists>new r. group_lines c bt ls cur blocks = (r, blocks @ new) \<and>
           concat new @ r = cur @ ls \<and> list_all (\<lambda>b. length b = n) new \<and> length r < n"
  using assms(2)
proof (induction ls arbitrary: cur blocks)
  case Nil
  then show ?case by simp
next
  case (Cons line rest)
  show ?case
  proof (cases "Suc (length cur) = n")
    case True
    have pos: "length ([] :: string list) < n" using block_size_flush[OF assms(1)] by simp
    obtain new r where IH: "group_lines c bt rest [] (blocks @ [cur @ [line]])
                              = (r, (blocks @ [cur @ [line]]) @ new)"
      "concat new @ r = [] @ rest" "list_all (\<lambda>b. length b = n) new" "length r < n"
      using Cons.IH[OF pos, of "blocks @ [cur @ [line]]"] by blast
    have step: "group_lines c bt (line # rest) cur blocks
                  = group_lines c bt rest [] (blocks @ [cur @ [line]])"
      using block_size_flush[OF assms(1)] True by (simp only: group_lines_step) simp
    have "group_lines c bt (line # rest) cur blocks = (r, blocks @ ((cur @ [line]) # new))"
      using step IH(1) by simp
    moreover have "concat ((cur @ [line]) # new) @ r = cur @ line # rest"
      using IH(2) by simp
    moreover have "list_all (\<lambda>b. length b = n) ((cur @ [line]) # new)"
      using IH(3) True by simp
    ultimately show ?thesis using IH(4) by blast
  next
    case False
    then have lt: "length (cur @ [line]) < n" using Cons.prems by simp
    obtain new r where IH: "group_lines c bt rest (cur @ [line]) blocks = (r, blocks @ new)"
      "concat new @ r = (cur @ [line]) @ rest" "list_all (\<lambda>b. length b = n) new" "length r < n"
      using Cons.IH[OF lt, of blocks] by blast
    have "expect_size c bt (Suc (length cur)) \<noteq> Some (Suc (length cur))"
      using block_size_wait[OF assms(1), of "Suc (length cur)"] lt by simp
    then have "group_lines c bt (line # rest) cur blocks = (r, blocks @ new)"
      using IH(1) by (simp only: group_lines_step) simp
    then show ?thesis using IH(2-4) by auto
  qed
qed

lemma make_blocks_chunks:
  assumes "block_size c bt = Some n"
  shows "\<exists>bs r. make_blocks c bt ls = bs @ (if length r = 4 then [r] else []) \<and>
           concat bs @ r = ls \<and> list_all (\<lambda>b. length b = n) bs \<and> length r < n"
proof -
  have pos: "length ([] :: string list) < n" using block_size_flush[OF assms] by simp
  obtain bs r where g: "group_lines c bt ls [] [] = (r, [] @ bs)"
    "concat bs @ r = [] @ ls" "list_all (\<lambda>b. length b = n) bs" "length r < n"
    using group_lines_chunks[OF assms pos, of ls "[]"] by blast
  have "length r < 5" using g(4) block_size_flush[OF assms] by simp
  then have "make_blocks c bt ls = bs @ (if length r = 4 then [r] else [])"
    using g(1) by (auto simp: make_blocks_def)
  then show ?thesis using g(2-4) by auto
qed

lemma length_concat_chunks:
  "list_all (\<lambda>b. length b = n) bs \<Longrightarrow> length (concat bs) = n * length bs"
  by (induction bs) auto

lemma parse_5line_nonempty: "parse_5line now b = Some r \<Longrightarrow> r \<noteq> []"
  by (auto simp: parse_5line_def Let_def split: list.splits if_splits prod.splits sum.splits)

lemma map_blocks_enabled:
  assumes "parse_5_line_blocks c" and "list_all (\<lambda>b. length b = 5) bs"
  shows "map_blocks c now bs parsed = (None, parsed @ rows_of_blocks now bs)"
  using assms(2)
proof (induction bs arbitrary: parsed)
  case Nil
  then show ?case by (simp add: rows_of_blocks_def)
next
  case (Cons b bs)
  then have len: "length b = 5" and rest: "list_all (\<lambda>b. length b = 5) bs" by simp_all
  have mb: "map_block c now b = Inr (parse_5line now b)"
    using assms(1) len by (simp add: map_block_def)
  show ?case
  proof (cases "parse_5line now b")
    case None
    then show ?thesis using mb Cons.IH[OF rest] by (simp add: rows_of_blocks_def)
  next
    case (Some r)
    then have "r \<noteq> []" by (rule parse_5line_nonempty)
    then show ?thesis using mb Some Cons.IH[OF rest] by (simp add: rows_of_blocks_def)
  qed
qed

lemma map_blocks_disabled:
  assumes "\<not> parse_5_line_blocks c" and "list_all (\<lambda>b. length b = 5) bs"
  shows "map_blocks c now bs parsed = (None, parsed)"
  using assms(2)
proof (induction bs arbitrary: parsed)
  case Nil
  then show ?case by simp
next
  case (Cons b bs)
  then have len: "length b = 5" and rest: "list_all (\<lambda>b. length b = 5) bs" by simp_all
  have "map_block c now b = Inr None" using assms(1) len by (simp add: map_block_def)
  then show ?case using Cons.IH[OF rest] by simp
qed

lemma parse_feed_body:
  assumes "feed_lines text \<noteq> []"
  shows "fst (parse_feed self now text bt) =
           (case map_blocks (cfg self) now
                   (make_blocks (cfg self) bt (body_lines (cfg self) (feed_lines text))) [] of
              (Some e, parsed) \<Rightarrow> Inl e
            | (None, parsed) \<Rightarrow> Inr parsed)"
  using assms
  by (simp add: parse_feed_def body_lines_def Let_def case_prod_beta split: option.splits)

lemma group_lines_5line_short:
  "length cur + length ls < 5 \<Longrightarrow> group_lines c ''5line'' ls cur blocks = (cur @ ls, blocks)"
  by (induction ls arbitrary: cur) (auto simp: expect_size_def Let_def)

lemma group_lines_5line_fill:
  "length cur + length b = 5 \<Longrightarrow> b \<noteq> [] \<Longrightarrow>
     group_lines c ''5line'' (b @ rest) cur blocks = group_lines c ''5line'' rest [] (blocks @ [cur @ b])"
proof (induction b arbitrary: cur)
  case Nil
  then show ?case by simp
next
  case (Cons line b)
  show ?case
  proof (cases "b = []")
    case True
    then show ?thesis using Cons.prems by (simp add: expect_size_def Let_def)
  next
    case False
    have fill: "length (cur @ [line]) + length b = 5" using Cons.prems by simp
    have "0 < length b" using False by simp
    then have "length (cur @ [line]) \<noteq> 5" using fill by linarith
    then show ?thesis using Cons.IH[OF fill False]
      by (simp add: expect_size_def Let_def)
  qed
qed

lemma make_blocks_5line_cut:
  assumes "length b = 5" and "length extra < 4"
  shows "make_blocks c ''5line'' (b @ extra) = [b]"
proof -
  have "b \<noteq> []" using assms(1) by auto
  then have "group_lines c ''5line'' (b @ extra) [] [] = group_lines c ''5line'' extra [] [b]"
    using group_lines_5line_fill[of "[]" b c extra "[]"] assms(1) by simp
  also have "\<dots> = (extra, [b])"
    using group_lines_5line_short[of "[]" extra c "[b]"] assms(2) by simp
  finally show ?thesis using assms(2) by (simp add: make_blocks_def)
qed


text \<open>
  Claim C8, as amended. The grouping loop cuts the lines greedily into consecutive blocks
  of the flush size \<open>n\<close>: the blocks and the remainder \<open>r\<close> of fewer than \<open>n\<close> lines make up
  the lines in order, and the remainder becomes a last block only when it has four lines.
  So six lines are never one block. In mode \<^verbatim>\<open>5line\<close>, unless four lines remain:
  with the 5-line grammar enabled \<open>parse_feed\<close> returns the rows of the successive 5-line
  blocks and the remainder adds nothing, so of five lines followed by fewer than four more
  only the first five are mapped; with the 5-line grammar disabled every block is
  dropped, \<open>parse_feed\<close> returns no row and leaves the parser as it was.
\<close>

theorem parse_feed_greedy_blocks:
  "(block_size c bt = Some n \<longrightarrow>
      (\<exists>bs r. make_blocks c bt ls = bs @ (if length r = 4 then [r] else []) \<and>
              concat bs @ r = ls \<and> list_all (\<lambda>b. length b = n) bs \<and> length r < n)) \<and>
   (parse_5_line_blocks (cfg self) \<and>
    length (body_lines (cfg self) (feed_lines text)) mod 5 \<noteq> 4 \<longrightarrow>
      (\<exists>bs r. concat bs @ r = body_lines (cfg self) (feed_lines text) \<and>
              list_all (\<lambda>b. length b = 5) bs \<and> length r < 5 \<and>
              fst (parse_feed self now text ''5line'') = Inr (rows_of_blocks now bs))) \<and>
   (parse_5_line_blocks (cfg self) \<and>
    body_lines (cfg self) (feed_lines text) = blk @ extra \<and> length blk = 5 \<and> length extra < 4 \<longrightarrow>
      fst (parse_feed self now text ''5line'') = Inr (rows_of_blocks now [blk])) \<and>
   (\<not> parse_5_line_blocks (cfg self) \<and>
    length (body_lines (cfg self) (feed_lines text)) mod 5 \<noteq> 4 \<longrightarrow>
      parse_feed self now text ''5line'' = (Inr [], self))"
proof (intro conjI impI)
  assume "block_size c bt = Some n"
  then show "\<exists>bs r. make_blocks c bt ls = bs @ (if length r = 4 then [r] else []) \<and>
              concat bs @ r = ls \<and> list_all (\<lambda>b. length b = n) bs \<and> length r < n"
    by (rule make_blocks_chunks)
next
  let ?body = "body_lines (cfg self) (feed_lines text)"
  have five: "block_size (cfg self) ''5line'' = Some 5" by (simp add: block_size_def)
  obtain bs r where ch: "make_blocks (cfg self) ''5line'' ?body = bs @ (if length r = 4 then [r] else [])"
    "concat bs @ r = ?body" "list_all (\<lambda>b. length b = 5) bs" "length r < 5"
    using make_blocks_chunks[OF five, of ?body] by blast
  have len: "length ?body = 5 * length bs + length r"
    using ch(2) length_concat_chunks[OF ch(3)] by (metis length_append)
  {
    assume h: "parse_5_line_blocks (cfg self) \<and> length ?body mod 5 \<noteq> 4"
    then have "length r \<noteq> 4" using len ch(4) by auto
    then have mk: "make_blocks (cfg self) ''5line'' ?body = bs" using ch(1) by simp
    have "fst (parse_feed self now text ''5line'') = Inr (rows_of_blocks now bs)"
    proof (cases "feed_lines text = []")
      case True
      then have "?body = []" by (simp add: body_lines_def)
      then have "bs = []" using ch(2) ch(3) by (cases bs) auto
      then show ?thesis using True by (simp add: parse_feed_def rows_of_blocks_def)
    next
      case False
      show ?thesis
        using h map_blocks_enabled[of "cfg self" bs now "[]"] ch(3)
        by (simp add: parse_feed_body[OF False] mk)
    qed
    then show "\<exists>bs r. concat bs @ r = ?body \<and> list_all (\<lambda>b. length b = 5) bs \<and> length r < 5 \<and>
              fst (parse_feed self now text ''5line'') = Inr (rows_of_blocks now bs)"
      using ch(2-4) by blast
  }
  {
    assume h: "\<not> parse_5_line_blocks (cfg self) \<and> length ?body mod 5 \<noteq> 4"
    then have "length r \<noteq> 4" using len ch(4) by auto
    then have mk: "make_blocks (cfg self) ''5line'' ?body = bs" using ch(1) by simp
    show "parse_feed self now text ''5line'' = (Inr [], self)"
    proof (cases "feed_lines text = []")
      case True
      then show ?thesis by (simp add: parse_feed_def)
    next
      case False
      have "map_blocks (cfg self) now bs [] = (None, [])"
        using h ch(3) by (simp add: map_blocks_disabled)
      then show ?thesis using False mk
        by (simp add: parse_feed_def body_lines_def Let_def)
    qed
  }
  {
    assume h: "parse_5_line_blocks (cfg self) \<and> ?body = blk @ extra \<and> length blk = 5 \<and>
               length extra < 4"
    then have ne: "feed_lines text \<noteq> []" by (auto simp: body_lines_def)
    have mk: "make_blocks (cfg self) ''5line'' ?body = [blk]"
      using h make_blocks_5line_cut[of blk extra "cfg self"] by simp
    have mb: "map_blocks (cfg self) now [blk] [] = (None, rows_of_blocks now [blk])"
      using h map_blocks_enabled[of "cfg self" "[blk]" now "[]"] by simp
    show "fst (parse_feed self now text ''5line'') = Inr (rows_of_blocks now [blk])"
      unfolding parse_feed_body[OF ne] mk mb by simp
  }
qed

lemma feed_lines_six:
  "feed_lines (feed_text [''header'', ''01/01 7:00pm TeamA -3.5'', ''-110'', ''o45.5'', ''-110'',
                          ''-150 +130'', ''a sixth line''])
     = [''header'', ''01/01 7:00pm TeamA -3.5'', ''-110'', ''o45.5'', ''-110'', ''-150 +130'',
        ''a sixth line'']"
  by code_simp

theorem parse_feed_greedy_blocks_witness:
  "(\<exists>bs r. make_blocks config ''auto'' [''l1'', ''l2'', ''l3'', ''l4'', ''l5'', ''l6'']
             = bs @ (if length r = 4 then [r] else []) \<and>
           concat bs @ r = [''l1'', ''l2'', ''l3'', ''l4'', ''l5'', ''l6''] \<and>
           list_all (\<lambda>b. length b = 4) bs \<and> length r < 4) \<and>
   (\<exists>bs r. concat bs @ r = [''01/01 7:00pm TeamA -3.5'', ''-110'', ''o45.5'', ''-110'',
                              ''-150 +130'', ''a sixth line''] \<and>
           list_all (\<lambda>b. length b = 5) bs \<and> length r < 5 \<and>
           fst (parse_feed new_parser ''2024-01-01T00:00:00''
                  (feed_text [''header'', ''01/01 7:00pm TeamA -3.5'', ''-110'', ''o45.5'', ''-110'',
                              ''-150 +130'', ''a sixth line''])
                  ''5line'')
             = Inr (rows_of_blocks ''2024-01-01T00:00:00'' bs)) \<and>
   fst (parse_feed new_parser ''2024-01-01T00:00:00''
          (feed_text [''header'', ''01/01 7:00pm TeamA -3.5'', ''-110'', ''o45.5'', ''-110'',
                      ''-150 +130'', ''a sixth line''])
          ''5line'')
     = Inr (rows_of_blocks ''2024-01-01T00:00:00''
              [[''01/01 7:00pm TeamA -3.5'', ''-110'', ''o45.5'', ''-110'', ''-150 +130'']]) \<and>
   parse_feed (new_parser\<lparr>cfg := config\<lparr>parse_5_line_blocks := False\<rparr>\<rparr>) ''2024-01-01T00:00:00''
     (feed_text [''header'', ''01/01 7:00pm TeamA -3.5'', ''-110'', ''o45.5'', ''-110'',
                 ''-150 +130'', ''a sixth line''])
     ''5line''
     = (Inr [], new_parser\<lparr>cfg := config\<lparr>parse_5_line_blocks := False\<rparr>\<rparr>)"
proof -
  let ?text = "feed_text [''header'', ''01/01 7:00pm TeamA -3.5'', ''-110'', ''o45.5'', ''-110'',
                          ''-150 +130'', ''a sixth line'']"
  let ?blk = "[''01/01 7:00pm TeamA -3.5'', ''-110'', ''o45.5'', ''-110'', ''-150 +130'']"
  let ?off = "new_parser\<lparr>cfg := config\<lparr>parse_5_line_blocks := False\<rparr>\<rparr>"
  have auto4: "block_size config ''auto'' = Some 4"
    by (simp add: block_size_def config_def)
  have body: "body_lines (cfg new_parser) (feed_lines ?text) = ?blk @ [''a sixth line'']"
    by (simp add: feed_lines_six body_lines_def new_parser_def config_def)
  have body_off: "body_lines (cfg ?off) (feed_lines ?text) = ?blk @ [''a sixth line'']"
    by (simp add: feed_lines_six body_lines_def new_parser_def config_def)
  have len_off: "length (body_lines (cfg ?off) (feed_lines ?text)) mod 5 \<noteq> 4"
    by (simp only: body_off) simp
  have on: "parse_5_line_blocks (cfg new_parser)"
    by (simp add: new_parser_def config_def)
  have off: "\<not> parse_5_line_blocks (cfg ?off)"
    by simp
  note inst = parse_feed_greedy_blocks[of config "''auto''" 4
                "[''l1'', ''l2'', ''l3'', ''l4'', ''l5'', ''l6'']" new_parser ?text
                "''2024-01-01T00:00:00''" ?blk "[''a sixth line'']"]
  note inst_off = parse_feed_greedy_blocks[of config "''auto''" 4 "[]" ?off ?text
                    "''2024-01-01T00:00:00''" "[]" "[]"]
  have c1: "\<exists>bs r. make_blocks config ''auto'' [''l1'', ''l2'', ''l3'', ''l4'', ''l5'', ''l6'']
                     = bs @ (if length r = 4 then [r] else []) \<and>
                   concat bs @ r = [''l1'', ''l2'', ''l3'', ''l4'', ''l5'', ''l6''] \<and>
                   list_all (\<lambda>b. length b = 4) bs \<and> length r < 4"
    using inst[THEN conjunct1] auto4 by blast
  have c2: "\<exists>bs r. concat bs @ r = ?blk @ [''a sixth line''] \<and>
                   list_all (\<lambda>b. length b = 5) bs \<and> length r < 5 \<and>
                   fst (parse_feed new_parser ''2024-01-01T00:00:00'' ?text ''5line'')
                     = Inr (rows_of_blocks ''2024-01-01T00:00:00'' bs)"
    using inst[THEN conjunct2, THEN conjunct1] on by (simp add: body)
  have c3: "fst (parse_feed new_parser ''2024-01-01T00:00:00'' ?text ''5line'')
              = Inr (rows_of_blocks ''2024-01-01T00:00:00'' [?blk])"
    using inst[THEN conjunct2, THEN conjunct2, THEN conjunct1] on by (simp add: body)
  have c4: "parse_feed ?off ''2024-01-01T00:00:00'' ?text ''5line'' = (Inr [], ?off)"
    using inst_off[THEN conjunct2, THEN conjunct2, THEN conjunct2] off len_off by blast
  from c1 c2 c3 c4 show ?thesis by simp
qed

text \<open>
  Claim C8 as stated fails for six lines after the header in mode \<^verbatim>\<open>5line\<close>: they are not
  dropped as one block of six lines; the first five are mapped and give a row.
\<close>

theorem six_lines_give_a_row:
  "map_sum id (map (\<lambda>r. row_get r ''game_id''))
     (fst (parse_feed new_parser ''2024-01-01T00:00:00''
             (feed_text [''header'', ''01/01 7:00pm TeamA -3.5'', ''-110'', ''o45.5'', ''-110'',
                         ''-150 +130'', ''a sixth line''])
             ''5line''))
   = Inr [VStr ''01/01|7:00pm|TeamA'']"
  by code_simp

end
